theory Spec2Isabelle
  imports Main
begin

section \<open>JavaScript values\<close>

text \<open>
  A number is a double whose value is an integer, or \<open>NaN\<close>: \<open>Num n\<close> stands for the
  double of value \<open>n\<close>. Fractional and infinite doubles are outside the model.
  An object is a finite map from property names to values; a property that is present
  with the value \<open>undefined\<close> (\<open>Some JUndefined\<close>) is distinct from an absent
  one (\<open>None\<close>), as it is for the spread operator.
\<close>

datatype jsnum = NaN | Num int

datatype jsval = JUndefined | JNull | JBool bool | JNumber jsnum | JString string

type_synonym obj = "string \<rightharpoonup> jsval"

text \<open>Property read \<open>o.k\<close>: an absent property reads as \<open>undefined\<close>.\<close>

definition getProp :: "obj \<Rightarrow> string \<Rightarrow> jsval" where
  "getProp ob k = (case ob k of None \<Rightarrow> JUndefined | Some v \<Rightarrow> v)"

text \<open>Object spread \<open>{...a, ...b}\<close>: every own property of \<open>b\<close> overrides that of \<open>a\<close>.\<close>

definition spread :: "obj \<Rightarrow> obj \<Rightarrow> obj" where
  "spread a b = a ++ b"

text \<open>Truthiness, as used by \<open>||\<close> and \<open>&&\<close>.\<close>

fun truthy :: "jsval \<Rightarrow> bool" where
  "truthy JUndefined = False"
| "truthy JNull = False"
| "truthy (JBool b) = b"
| "truthy (JNumber NaN) = False"
| "truthy (JNumber (Num n)) = (n \<noteq> 0)"
| "truthy (JString s) = (s \<noteq> [])"

text \<open>
  The string-to-number conversion behind \<open>Number(id)\<close> and \<open>Math.max\<close> is a built-in whose
  code is not part of the repository; it is a parameter \<open>N\<close> of every operation.
\<close>

fun ToNumber :: "(string \<Rightarrow> jsnum) \<Rightarrow> jsval \<Rightarrow> jsnum" where
  "ToNumber N JUndefined = NaN"
| "ToNumber N JNull = Num 0"
| "ToNumber N (JBool b) = Num (if b then 1 else 0)"
| "ToNumber N (JNumber n) = n"
| "ToNumber N (JString s) = N s"

text \<open>Strict equality \<open>v === n\<close> of a value with a number: \<open>NaN\<close> equals nothing.\<close>

fun strict_eq_num :: "jsval \<Rightarrow> jsnum \<Rightarrow> bool" where
  "strict_eq_num (JNumber (Num a)) (Num b) = (a = b)"
| "strict_eq_num _ _ = False"

fun max2 :: "jsnum \<Rightarrow> jsnum \<Rightarrow> jsnum" where
  "max2 (Num a) (Num b) = Num (max a b)"
| "max2 _ _ = NaN"

text \<open>\<open>Math.max(x, ...xs)\<close> on at least one argument.\<close>

fun Math_max :: "jsnum \<Rightarrow> jsnum list \<Rightarrow> jsnum" where
  "Math_max x [] = x"
| "Math_max x (y # ys) = Math_max (max2 x y) ys"

text \<open>
  \<open>x + 1\<close> on doubles: the double nearest to the sum, ties to the even significand.
  From \<open>-2^53\<close> up to \<open>2^53 - 1\<close> the sum is exact. Up to magnitude \<open>2^54\<close> the doubles
  are the even integers, the sum lies half way between two of them and their
  significands are the halves of their magnitudes; beyond, the sum is nearest to \<open>x\<close>
  itself. So \<open>2^53 + 1\<close> is \<open>2^53\<close> again.
\<close>

fun plus1 :: "jsnum \<Rightarrow> jsnum" where
  "plus1 NaN = NaN"
| "plus1 (Num n) =
     Num (if - 9007199254740992 \<le> n \<and> n < 9007199254740992 then n + 1
          else if \<bar>n\<bar> \<le> 18014398509481984 then
            (if even (\<bar>n\<bar> div 2) then n else n + 2)
          else n)"

text \<open>\<open>Array.prototype.findIndex\<close>; \<open>None\<close> stands for the result \<open>-1\<close>.\<close>

fun findIndex :: "('a \<Rightarrow> bool) \<Rightarrow> 'a list \<Rightarrow> nat option" where
  "findIndex P [] = None"
| "findIndex P (x # xs) =
     (if P x then Some 0 else map_option Suc (findIndex P xs))"

section \<open>The record stores\<close>

datatype logline = LogInfo string | LogError string

datatype error = Error string

text \<open>
  File contents are modelled up to JSON syntax: the text of a JSON array of flat objects
  is the array it denotes, any text that \<open>JSON.parse\<close> rejects is \<open>Unparsable\<close>.
  \<open>JSON.stringify\<close> drops the properties whose value is \<open>undefined\<close> and prints
  \<open>NaN\<close> as \<open>null\<close>.
\<close>

datatype file_content = JsonArray "obj list" | Unparsable string

definition jsonify :: "obj \<Rightarrow> obj" where
  "jsonify ob =
     (\<lambda>k. case ob k of
            Some JUndefined \<Rightarrow> None
          | Some (JNumber NaN) \<Rightarrow> Some JNull
          | r \<Rightarrow> r)"

definition JSON_stringify :: "obj list \<Rightarrow> file_content" where
  "JSON_stringify ps = JsonArray (map jsonify ps)"

fun JSON_parse :: "file_content \<Rightarrow> obj list option" where
  "JSON_parse (JsonArray ps) = Some ps"
| "JSON_parse (Unparsable t) = None"

text \<open>
  The outcome of each file-system call is an input of the model: a write succeeds, or it
  fails and leaves some content (or no file) behind.
\<close>

datatype write_outcome = WriteOk | WriteFails "file_content option"

record io =
  mkdir_ok :: bool
  write_res :: write_outcome
  read_ok :: bool

text \<open>
  What both services share: the \<open>initialized\<close> flag, the file at \<open>DATA_FILE_PATH\<close>
  (\<open>None\<close> when it does not exist), the console and the number of \<open>writeFile\<close> calls
  issued so far.
\<close>

record service =
  initialized :: bool
  disk :: "file_content option"
  console :: "logline list"
  writes :: nat

subsection \<open>ProjectService\<close>

record project_service = service +
  projects :: "obj list"

definition ProjectService_init :: "io \<Rightarrow> project_service \<Rightarrow> project_service" where
  "ProjectService_init i s =
     (if initialized s then s
      else (case (if read_ok i then disk s else None) of
              None \<Rightarrow>
                s\<lparr>projects := [], initialized := True,
                  console := console s @ [LogError ''Failed to load projects.json:'']\<rparr>
            | Some data \<Rightarrow>
                (case JSON_parse data of
                   None \<Rightarrow>
                     s\<lparr>projects := [], initialized := True,
                       console := console s @ [LogError ''Failed to load projects.json:'']\<rparr>
                 | Some ps \<Rightarrow>
                     s\<lparr>projects := ps, initialized := True,
                       console := console s @
                         [LogInfo ''Bolt: Projects loaded into memory for fast access.'']\<rparr>)))"

definition getProjects :: "project_service \<Rightarrow> obj list" where
  "getProjects s = projects s"

definition getProjectById :: "(string \<Rightarrow> jsnum) \<Rightarrow> project_service \<Rightarrow> jsval \<Rightarrow> obj option" where
  "getProjectById N s ident =
     List.find (\<lambda>p. strict_eq_num (getProp p ''id'') (ToNumber N ident)) (projects s)"

definition ProjectService_save ::
  "write_outcome \<Rightarrow> project_service \<Rightarrow> (error + unit) \<times> project_service" where
  "ProjectService_save w s =
     (case w of
        WriteOk \<Rightarrow>
          (Inr (), s\<lparr>disk := Some (JSON_stringify (projects s)), writes := writes s + 1\<rparr>)
      | WriteFails left \<Rightarrow>
          (Inl (Error ''Failed to save project data''),
           s\<lparr>disk := left, writes := writes s + 1,
             console := console s @ [LogError ''Failed to save projects to disk:'']\<rparr>))"

text \<open>
  \<open>length > 0 ? Math.max(...list.map(p => p.id)) + 1 : 1\<close>, shared by both services.
\<close>

definition newId :: "(string \<Rightarrow> jsnum) \<Rightarrow> obj list \<Rightarrow> jsnum" where
  "newId N ps =
     (case map (\<lambda>p. ToNumber N (getProp p ''id'')) ps of
        [] \<Rightarrow> Num 1
      | x # xs \<Rightarrow> plus1 (Math_max x xs))"

definition addProject ::
  "(string \<Rightarrow> jsnum) \<Rightarrow> write_outcome \<Rightarrow> project_service \<Rightarrow> obj \<Rightarrow>
     (error + obj) \<times> project_service" where
  "addProject N w s projectData =
     (let newProject = spread [''id'' \<mapsto> JNumber (newId N (projects s))] projectData;
          s1 = s\<lparr>projects := projects s @ [newProject]\<rparr>
      in case ProjectService_save w s1 of
           (Inl e, s2) \<Rightarrow> (Inl e, s2)
         | (Inr _, s2) \<Rightarrow> (Inr newProject, s2))"

definition updateProject ::
  "(string \<Rightarrow> jsnum) \<Rightarrow> write_outcome \<Rightarrow> project_service \<Rightarrow> jsval \<Rightarrow> obj \<Rightarrow>
     (error + (obj \<times> obj) option) \<times> project_service" where
  "updateProject N w s ident updateData =
     (let projectId = ToNumber N ident in
      case findIndex (\<lambda>p. strict_eq_num (getProp p ''id'') projectId) (projects s) of
        None \<Rightarrow> (Inr None, s)
      | Some index \<Rightarrow>
          (let oldProject = projects s ! index;
               updatedProject = spread oldProject updateData;
               s1 = s\<lparr>projects := (projects s)[index := updatedProject]\<rparr>
           in case ProjectService_save w s1 of
                (Inl e, s2) \<Rightarrow> (Inl e, s2)
              | (Inr _, s2) \<Rightarrow> (Inr (Some (updatedProject, oldProject)), s2)))"

definition deleteProject ::
  "(string \<Rightarrow> jsnum) \<Rightarrow> write_outcome \<Rightarrow> project_service \<Rightarrow> jsval \<Rightarrow>
     (error + obj option) \<times> project_service" where
  "deleteProject N w s ident =
     (let projectId = ToNumber N ident in
      case findIndex (\<lambda>p. strict_eq_num (getProp p ''id'') projectId) (projects s) of
        None \<Rightarrow> (Inr None, s)
      | Some index \<Rightarrow>
          (let deletedProject = projects s ! index;
               s1 = s\<lparr>projects := take index (projects s) @ drop (Suc index) (projects s)\<rparr>
           in case ProjectService_save w s1 of
                (Inl e, s2) \<Rightarrow> (Inl e, s2)
              | (Inr _, s2) \<Rightarrow> (Inr (Some deletedProject), s2)))"

subsection \<open>ArticleService\<close>

record article_service = service +
  articles :: "obj list"

text \<open>The \<open>catch\<close> block of \<open>init\<close>.\<close>

definition ArticleService_init_catch :: "article_service \<Rightarrow> article_service" where
  "ArticleService_init_catch s =
     s\<lparr>articles := [], initialized := True,
       console := console s @ [LogError ''Failed to load articles.json:'']\<rparr>"

text \<open>The \<open>try\<close> block of \<open>init\<close> from \<open>readFile\<close> on.\<close>

definition ArticleService_init_read :: "io \<Rightarrow> article_service \<Rightarrow> article_service" where
  "ArticleService_init_read i s =
     (case (if read_ok i then disk s else None) of
        None \<Rightarrow> ArticleService_init_catch s
      | Some data \<Rightarrow>
          (case JSON_parse data of
             None \<Rightarrow> ArticleService_init_catch s
           | Some as \<Rightarrow>
               s\<lparr>articles := as, initialized := True,
                 console := console s @
                   [LogInfo ''Bolt: Articles loaded into memory for fast access.'']\<rparr>))"

definition ArticleService_init :: "io \<Rightarrow> article_service \<Rightarrow> article_service" where
  "ArticleService_init i s =
     (if initialized s then s
      else if disk s = None then
        (if \<not> mkdir_ok i then ArticleService_init_catch s
         else (case write_res i of
                 WriteOk \<Rightarrow>
                   ArticleService_init_read i
                     (s\<lparr>disk := Some (JsonArray []), writes := writes s + 1\<rparr>)
               | WriteFails left \<Rightarrow>
                   ArticleService_init_catch (s\<lparr>disk := left, writes := writes s + 1\<rparr>)))
      else ArticleService_init_read i s)"

definition getArticles :: "article_service \<Rightarrow> obj list" where
  "getArticles s = articles s"

definition getArticleById :: "(string \<Rightarrow> jsnum) \<Rightarrow> article_service \<Rightarrow> jsval \<Rightarrow> obj option" where
  "getArticleById N s ident =
     List.find (\<lambda>a. strict_eq_num (getProp a ''id'') (ToNumber N ident)) (articles s)"

definition ArticleService_save ::
  "write_outcome \<Rightarrow> article_service \<Rightarrow> (error + unit) \<times> article_service" where
  "ArticleService_save w s =
     (case w of
        WriteOk \<Rightarrow>
          (Inr (), s\<lparr>disk := Some (JSON_stringify (articles s)), writes := writes s + 1\<rparr>)
      | WriteFails left \<Rightarrow>
          (Inl (Error ''Failed to save article data''),
           s\<lparr>disk := left, writes := writes s + 1,
             console := console s @ [LogError ''Failed to save articles to disk:'']\<rparr>))"

text \<open>\<open>nowIso\<close> is the value of \<open>new Date().toISOString()\<close> at the call.\<close>

definition addArticle ::
  "(string \<Rightarrow> jsnum) \<Rightarrow> string \<Rightarrow> write_outcome \<Rightarrow> article_service \<Rightarrow> obj \<Rightarrow>
     (error + obj) \<times> article_service" where
  "addArticle N nowIso w s articleData =
     (let newArticle =
            (spread [''id'' \<mapsto> JNumber (newId N (articles s))] articleData)
              (''date'' \<mapsto>
                 (if truthy (getProp articleData ''date'') then getProp articleData ''date''
                  else JString nowIso));
          s1 = s\<lparr>articles := articles s @ [newArticle]\<rparr>
      in case ArticleService_save w s1 of
           (Inl e, s2) \<Rightarrow> (Inl e, s2)
         | (Inr _, s2) \<Rightarrow> (Inr newArticle, s2))"

definition updateArticle ::
  "(string \<Rightarrow> jsnum) \<Rightarrow> write_outcome \<Rightarrow> article_service \<Rightarrow> jsval \<Rightarrow> obj \<Rightarrow>
     (error + (obj \<times> obj) option) \<times> article_service" where
  "updateArticle N w s ident updateData =
     (let articleId = ToNumber N ident in
      case findIndex (\<lambda>a. strict_eq_num (getProp a ''id'') articleId) (articles s) of
        None \<Rightarrow> (Inr None, s)
      | Some index \<Rightarrow>
          (let oldArticle = articles s ! index;
               updatedArticle = spread oldArticle updateData;
               s1 = s\<lparr>articles := (articles s)[index := updatedArticle]\<rparr>
           in case ArticleService_save w s1 of
                (Inl e, s2) \<Rightarrow> (Inl e, s2)
              | (Inr _, s2) \<Rightarrow> (Inr (Some (updatedArticle, oldArticle)), s2)))"

definition deleteArticle ::
  "(string \<Rightarrow> jsnum) \<Rightarrow> write_outcome \<Rightarrow> article_service \<Rightarrow> jsval \<Rightarrow>
     (error + obj option) \<times> article_service" where
  "deleteArticle N w s ident =
     (let articleId = ToNumber N ident in
      case findIndex (\<lambda>a. strict_eq_num (getProp a ''id'') articleId) (articles s) of
        None \<Rightarrow> (Inr None, s)
      | Some index \<Rightarrow>
          (let deletedArticle = articles s ! index;
               s1 = s\<lparr>articles := take index (articles s) @ drop (Suc index) (articles s)\<rparr>
           in case ArticleService_save w s1 of
                (Inl e, s2) \<Rightarrow> (Inl e, s2)
              | (Inr _, s2) \<Rightarrow> (Inr (Some deletedArticle), s2)))"

subsection \<open>The patch built by the article update route\<close>

text \<open>\<open>...(v && { k: v })\<close>: a falsy value contributes no property.\<close>

definition optional_prop :: "string \<Rightarrow> jsval \<Rightarrow> obj" where
  "optional_prop k v = (if truthy v then [k \<mapsto> v] else Map.empty)"

text \<open>
  The handler of \<open>PUT /:id\<close> in \<open>routes/articles.js\<close>: \<open>uploaded\<close> is the name of the
  uploaded file (\<open>req.file.filename\<close>) when there is one.
\<close>

definition put_image :: "obj \<Rightarrow> string option \<Rightarrow> jsval" where
  "put_image body uploaded =
     (case uploaded of
        Some filename \<Rightarrow> JString (''/images/articles/'' @ filename)
      | None \<Rightarrow>
          (if truthy (getProp body ''imageUrl'') then getProp body ''imageUrl''
           else JUndefined))"

definition put_updateData :: "obj \<Rightarrow> string option \<Rightarrow> obj" where
  "put_updateData body uploaded =
     spread (spread (spread (spread (spread
       (optional_prop ''title'' (getProp body ''title''))
       (optional_prop ''content'' (getProp body ''content'')))
       (optional_prop ''author'' (getProp body ''author'')))
       (optional_prop ''category'' (getProp body ''category'')))
       (optional_prop ''date'' (getProp body ''date'')))
       (optional_prop ''imageUrl'' (put_image body uploaded))"

subsection \<open>Constructors and numeric ids\<close>

text \<open>
  The constructors: an empty list, not initialized; \<open>d\<close> is what the file system holds
  at \<open>DATA_FILE_PATH\<close> when the process starts.
\<close>

definition ProjectService_constructor :: "file_content option \<Rightarrow> project_service" where
  "ProjectService_constructor d =
     \<lparr>initialized = False, disk = d, console = [], writes = 0, projects = []\<rparr>"

definition ArticleService_constructor :: "file_content option \<Rightarrow> article_service" where
  "ArticleService_constructor d =
     \<lparr>initialized = False, disk = d, console = [], writes = 0, articles = []\<rparr>"

text \<open>
  The data model gives every record a numeric \<open>id\<close> (\<open>id: number\<close> in the type
  declarations of the front end); \<open>idNum\<close> reads it.
\<close>

definition has_numeric_id :: "obj \<Rightarrow> bool" where
  "has_numeric_id p = (case getProp p ''id'' of JNumber (Num n) \<Rightarrow> True | _ \<Rightarrow> False)"

text \<open>
  A safe id is an integer of magnitude below \<open>2^53\<close> (\<open>Number.isSafeInteger\<close>): up to
  there every integer is a double and adding 1 is exact.
\<close>

definition has_safe_id :: "obj \<Rightarrow> bool" where
  "has_safe_id p =
     (case getProp p ''id'' of
        JNumber (Num n) \<Rightarrow> - 9007199254740992 < n \<and> n < 9007199254740992
      | _ \<Rightarrow> False)"

definition idNum :: "obj \<Rightarrow> int" where
  "idNum p = (case getProp p ''id'' of JNumber (Num n) \<Rightarrow> n | _ \<Rightarrow> 0)"

subsection \<open>Example data\<close>

text \<open>
  A string-to-number conversion for the examples: it agrees with the built-in one on
  plain decimal numerals, the only strings the examples convert.
\<close>

definition decimal :: "string \<Rightarrow> jsnum" where
  "decimal s =
     (if s \<noteq> [] \<and> list_all (\<lambda>c. c \<in> set ''0123456789'') s
      then Num (foldl (\<lambda>a c. 10 * a + (of_char c - 48)) 0 s)
      else NaN)"

definition project1 :: obj where
  "project1 = [''id'' \<mapsto> JNumber (Num 1), ''title'' \<mapsto> JString ''Ponte X'']"

definition project2 :: obj where
  "project2 = [''id'' \<mapsto> JNumber (Num 2), ''title'' \<mapsto> JString ''Viaduto Y'']"

definition store12 :: project_service where
  "store12 =
     \<lparr>initialized = True, disk = Some (JsonArray [project1, project2]), console = [],
      writes = 0, projects = [project1, project2]\<rparr>"

definition article1 :: obj where
  "article1 = [''id'' \<mapsto> JNumber (Num 1), ''title'' \<mapsto> JString ''Fundacoes'']"

definition astore1 :: article_service where
  "astore1 =
     \<lparr>initialized = True, disk = Some (JsonArray [article1]), console = [],
      writes = 0, articles = [article1]\<rparr>"

section \<open>The admin gate\<close>

text \<open>
  Strings of the gate (addresses, tokens, the configuration) are lists of code units
  below 256. \<open>String.prototype.trim\<close> removes white space and line terminators at both
  ends; below 256 these are the code units 9 to 13, 32 and 160.
\<close>

definition isWhiteSpace :: "char \<Rightarrow> bool" where
  "isWhiteSpace c = (of_char c \<in> {9, 10, 11, 12, 13, 32, 160 :: nat})"

definition trim :: "string \<Rightarrow> string" where
  "trim s = rev (dropWhile isWhiteSpace (rev (dropWhile isWhiteSpace s)))"

text \<open>\<open>s.split(sep)\<close> for a separator of one character: never the empty array.\<close>

fun split :: "char \<Rightarrow> string \<Rightarrow> string list" where
  "split sep [] = [[]]"
| "split sep (c # cs) =
     (if c = sep then [] # split sep cs
      else (case split sep cs of
              [] \<Rightarrow> [[c]]
            | w # ws \<Rightarrow> (c # w) # ws))"

definition startsWith :: "string \<Rightarrow> string \<Rightarrow> bool" where
  "startsWith s pre = (take (length pre) s = pre)"

text \<open>The module variables \<open>allowedIpsStr\<close> and \<open>allowedIps\<close>, initially \<open>''\<close> and \<open>[]\<close>.\<close>

record gate_state =
  allowedIpsStr :: string
  allowedIps :: "string list"

text \<open>\<open>process.env\<close>: a variable that is not set reads as \<open>undefined\<close> (\<open>None\<close>).\<close>

record environment =
  ADMIN_ALLOWED_IPS :: "string option"
  ADMIN_TOKEN :: "string option"
  NODE_ENV :: "string option"

record request =
  ip :: "string option"
  remoteAddress :: "string option"
  path :: string
  authorization :: "string option"

text \<open>A response is its status and the properties of its JSON body.\<close>

datatype response = Response nat obj

text \<open>
  \<open>logSecurityEvent(event, { ip, path })\<close> of the gate, and the event of the contact
  handler, \<open>logSecurityEvent('Email rate limit exceeded', { email, ip, remaining })\<close>.
\<close>

datatype security_event =
    SecurityEvent string "string option" string
  | EmailRateLimitExceeded string "string option" int

datatype gate_outcome = Next | Rejected response

text \<open>\<open>a || b\<close> on strings that may be \<open>undefined\<close>: the empty string is falsy.\<close>

definition or_else :: "string option \<Rightarrow> string option \<Rightarrow> string option" where
  "or_else a b = (case a of None \<Rightarrow> b | Some s \<Rightarrow> if s = [] then b else Some s)"

text \<open>The lazy initialisation at the head of \<open>adminAuth\<close>.\<close>

definition resolveAllowlist :: "environment \<Rightarrow> gate_state \<Rightarrow> gate_state" where
  "resolveAllowlist env g =
     (if allowedIpsStr g = [] \<and> ADMIN_ALLOWED_IPS env \<noteq> None then
        (let str = (case or_else (ADMIN_ALLOWED_IPS env) (Some []) of
                      None \<Rightarrow> [] | Some s \<Rightarrow> s)
         in g\<lparr>allowedIpsStr := str,
               allowedIps := filter (\<lambda>a. a \<noteq> []) (map trim (split CHR '','' str))\<rparr>)
      else g)"

definition clientIp :: "request \<Rightarrow> string option" where
  "clientIp req = or_else (ip req) (remoteAddress req)"

definition isLocalhost :: "request \<Rightarrow> bool" where
  "isLocalhost req =
     (clientIp req = Some ''127.0.0.1'' \<or> clientIp req = Some ''::1'' \<or>
      clientIp req = Some ''::ffff:127.0.0.1'')"

definition isLocalDev :: "environment \<Rightarrow> bool" where
  "isLocalDev env = (NODE_ENV env \<noteq> Some ''production'')"

definition bypassIpCheck :: "environment \<Rightarrow> request \<Rightarrow> bool" where
  "bypassIpCheck env req = (isLocalDev env \<and> isLocalhost req)"

text \<open>\<open>allowedIps.includes(clientIp)\<close>; an \<open>undefined\<close> address is in no list of strings.\<close>

definition allowedIps_includes :: "string list \<Rightarrow> string option \<Rightarrow> bool" where
  "allowedIps_includes xs a = (case a of None \<Rightarrow> False | Some s \<Rightarrow> s \<in> set xs)"

text \<open>
  Step 2 of the gate, the bearer-token check. \<open>authHeader.split(' ')[1]\<close> exists: the
  header starts with \<open>Bearer\<close> and a space, so the split has at least two parts.
\<close>

definition expectedToken :: "environment \<Rightarrow> string option" where
  "expectedToken env =
     (if isLocalDev env then or_else (ADMIN_TOKEN env) (Some ''admin_secret_token'')
      else ADMIN_TOKEN env)"

definition tokenCheck ::
  "environment \<Rightarrow> request \<Rightarrow> gate_outcome \<times> security_event list" where
  "tokenCheck env req =
     (case or_else (authorization req) None of
        None \<Rightarrow>
          (Rejected (Response 401
             [''success'' \<mapsto> JBool False,
              ''message'' \<mapsto> JString ''Unauthorized: Missing or invalid token format'']),
           [SecurityEvent ''admin_auth_missing'' (clientIp req) (path req)])
      | Some authHeader \<Rightarrow>
          (if \<not> startsWith authHeader ''Bearer '' then
             (Rejected (Response 401
                [''success'' \<mapsto> JBool False,
                 ''message'' \<mapsto> JString ''Unauthorized: Missing or invalid token format'']),
              [SecurityEvent ''admin_auth_missing'' (clientIp req) (path req)])
           else
             (let token = split CHR '' '' authHeader ! 1 in
              if or_else (expectedToken env) None = None \<or> Some token \<noteq> expectedToken env then
                (Rejected (Response 401
                   [''success'' \<mapsto> JBool False,
                    ''message'' \<mapsto> JString ''Unauthorized: Invalid token'']),
                 [SecurityEvent ''admin_auth_failed'' (clientIp req) (path req)])
              else (Next, []))))"

text \<open>
  \<open>adminAuth\<close> (the first definition in \<open>middleware/adminAuth.js\<close>): the outcome, the
  module state after the call and the security events logged.
\<close>

definition adminAuth ::
  "environment \<Rightarrow> gate_state \<Rightarrow> request \<Rightarrow>
     gate_outcome \<times> gate_state \<times> security_event list" where
  "adminAuth env g0 req =
     (let g = resolveAllowlist env g0 in
      if \<not> bypassIpCheck env req \<and> allowedIpsStr g \<noteq> ''*'' \<and>
         (allowedIpsStr g = [] \<or> \<not> allowedIps_includes (allowedIps g) (clientIp req))
      then
        (Rejected (Response 403
           [''success'' \<mapsto> JBool False,
            ''message'' \<mapsto> JString ''Forbidden: IP not authorized'']),
         g, [SecurityEvent ''admin_ip_blocked'' (clientIp req) (path req)])
      else (fst (tokenCheck env req), g, snd (tokenCheck env req)))"

text \<open>
  The second definition of \<open>adminAuth\<close> in the same file: no localhost bypass, and no
  development fallback for the expected token.
\<close>

definition adminAuth_strict ::
  "environment \<Rightarrow> gate_state \<Rightarrow> request \<Rightarrow>
     gate_outcome \<times> gate_state \<times> security_event list" where
  "adminAuth_strict env g0 req =
     (let g = resolveAllowlist env g0 in
      if allowedIpsStr g \<noteq> ''*'' \<and>
         (allowedIpsStr g = [] \<or> \<not> allowedIps_includes (allowedIps g) (clientIp req))
      then
        (Rejected (Response 403
           [''success'' \<mapsto> JBool False,
            ''message'' \<mapsto> JString ''Forbidden: IP not authorized'']),
         g, [SecurityEvent ''admin_ip_blocked'' (clientIp req) (path req)])
      else
        (case or_else (authorization req) None of
           None \<Rightarrow>
             (Rejected (Response 401
                [''success'' \<mapsto> JBool False,
                 ''message'' \<mapsto> JString ''Unauthorized: Missing or invalid token format'']),
              g, [SecurityEvent ''admin_auth_missing'' (clientIp req) (path req)])
         | Some authHeader \<Rightarrow>
             (if \<not> startsWith authHeader ''Bearer '' then
                (Rejected (Response 401
                   [''success'' \<mapsto> JBool False,
                    ''message'' \<mapsto> JString ''Unauthorized: Missing or invalid token format'']),
                 g, [SecurityEvent ''admin_auth_missing'' (clientIp req) (path req)])
              else
                (let token = split CHR '' '' authHeader ! 1 in
                 if or_else (ADMIN_TOKEN env) None = None \<or> Some token \<noteq> ADMIN_TOKEN env then
                   (Rejected (Response 401
                      [''success'' \<mapsto> JBool False,
                       ''message'' \<mapsto> JString ''Unauthorized: Invalid token'']),
                    g, [SecurityEvent ''admin_auth_failed'' (clientIp req) (path req)])
                 else (Next, g, [])))))"

definition gate_initial :: gate_state where
  "gate_initial = \<lparr>allowedIpsStr = [], allowedIps = []\<rparr>"

subsection \<open>Example requests\<close>

definition prod_env :: environment where
  "prod_env = \<lparr>ADMIN_ALLOWED_IPS = Some ''10.0.0.1, 10.0.0.2'', ADMIN_TOKEN = Some ''s3cret'',
                NODE_ENV = Some ''production''\<rparr>"

definition dev_env :: environment where
  "dev_env = \<lparr>ADMIN_ALLOWED_IPS = Some ''10.0.0.1, 10.0.0.2'', ADMIN_TOKEN = Some ''s3cret'',
               NODE_ENV = None\<rparr>"

definition outside_request :: request where
  "outside_request = \<lparr>ip = Some ''203.0.113.7'', remoteAddress = None,
     path = ''/api/admin/projects'', authorization = Some ''Bearer s3cret''\<rparr>"

definition localhost_request :: request where
  "localhost_request = \<lparr>ip = Some ''127.0.0.1'', remoteAddress = None,
     path = ''/api/admin/projects'', authorization = Some ''Bearer s3cret''\<rparr>"

text \<open>The response of the gate to an address that is not authorized.\<close>

definition forbidden :: response where
  "forbidden = Response 403
     [''success'' \<mapsto> JBool False, ''message'' \<mapsto> JString ''Forbidden: IP not authorized'']"

section \<open>The contact-submission pipeline\<close>

text \<open>
  A contact request: the request as before and the fields of its parsed JSON body.
  Body fields that are not strings are outside the model.
\<close>

record contact_request = request +
  forwardedFor :: "string option"
  body :: "string \<rightharpoonup> string"

subsection \<open>The IP rate limiter\<close>








subsection \<open>The per-email rate limiter\<close>

record email_limit =
  allowed :: bool
  remaining :: int
  resetTime :: "jsnum option"

text \<open>
  \<open>checkEmailRateLimit\<close>: \<open>subs\<close> is the module's map \<open>emailSubmissions\<close>, \<open>now\<close> the
  value of \<open>Date.now()\<close>; \<open>toLowerCase\<close> is the built-in lower-casing of strings.
  \<open>validSubmissions[0]\<close> of an empty array is \<open>undefined\<close>, and adding to it gives \<open>NaN\<close>;
  \<open>resetTime: null\<close> is \<open>None\<close>.
\<close>

definition checkEmailRateLimit ::
  "(string \<Rightarrow> string) \<Rightarrow> (string \<rightharpoonup> int list) \<Rightarrow> int \<Rightarrow> string \<Rightarrow> nat \<Rightarrow> int \<Rightarrow>
     email_limit \<times> (string \<rightharpoonup> int list)" where
  "checkEmailRateLimit toLowerCase subs now email maxSubmissions windowMs =
     (let key = toLowerCase email;
          subs1 = (if subs key = None then subs(key \<mapsto> []) else subs);
          submissions = (case subs1 key of None \<Rightarrow> [] | Some l \<Rightarrow> l);
          validSubmissions = filter (\<lambda>time. now - time < windowMs) submissions
      in if maxSubmissions \<le> length validSubmissions then
           (\<lparr>allowed = False, remaining = 0,
             resetTime = Some (case validSubmissions of
                                 [] \<Rightarrow> NaN
                               | t # _ \<Rightarrow> Num (t + windowMs))\<rparr>,
            subs1)
         else
           (\<lparr>allowed = True,
             remaining = int maxSubmissions - int (length (validSubmissions @ [now])),
             resetTime = None\<rparr>,
            subs1(key \<mapsto> validSubmissions @ [now])))"

text \<open>
  \<open>Math.ceil((resetTime - now) / 1000)\<close>, where \<open>null\<close> counts as \<open>0\<close>.
\<close>

definition retryAfter :: "jsnum option \<Rightarrow> int \<Rightarrow> jsnum" where
  "retryAfter reset now =
     (case (case reset of None \<Rightarrow> Num 0 | Some r \<Rightarrow> r) of
        NaN \<Rightarrow> NaN
      | Num r \<Rightarrow> Num (- ((now - r) div 1000)))"

text \<open>
  The route handler, from the per-email check on. \<open>now1\<close> is the clock read inside
  \<open>checkEmailRateLimit\<close>, \<open>now2\<close> the later one of the handler when it computes
  \<open>retryAfter\<close>; \<open>sent\<close> is the outcome of \<open>sendContactEmail\<close>: the message id, or the
  error it throws; \<open>client\<close> is the address the handler logs. The nested \<open>data\<close> object
  of the success body is flattened, and the messages are written without their accents.
\<close>

definition contact_handler ::
  "(string \<Rightarrow> string) \<Rightarrow> (string \<rightharpoonup> int list) \<Rightarrow> int \<Rightarrow> int \<Rightarrow> string \<Rightarrow> error + string \<Rightarrow>
     string option \<Rightarrow> response \<times> (string \<rightharpoonup> int list) \<times> security_event list" where
  "contact_handler toLowerCase subs now1 now2 email sent client =
     (case checkEmailRateLimit toLowerCase subs now1 email 5 3600000 of
        (emailLimit, subs') \<Rightarrow>
          if \<not> allowed emailLimit then
            (Response 429
               [''success'' \<mapsto> JBool False,
                ''message'' \<mapsto>
                  JString ''Limite de envios atingido para este e-mail. Tente novamente mais tarde.'',
                ''retryAfter'' \<mapsto> JNumber (retryAfter (resetTime emailLimit) now2)],
             subs', [EmailRateLimitExceeded (toLowerCase email) client (remaining emailLimit)])
          else
            (case sent of
               Inl (Error msg) \<Rightarrow>
                 (Response 500
                    [''success'' \<mapsto> JBool False,
                     ''message'' \<mapsto>
                       JString (if msg = []
                                then ''Erro ao enviar mensagem. Tente novamente mais tarde.''
                                else msg)],
                  subs', [])
             | Inr messageId \<Rightarrow>
                 (Response 200
                    [''success'' \<mapsto> JBool True,
                     ''message'' \<mapsto>
                       JString ''Mensagem enviada com sucesso! Entraremos em contato em breve.'',
                     ''messageId'' \<mapsto> JString messageId],
                  subs', [])))"


text \<open>
  The stages between the IP limiter and the handler are parameters: \<open>attackDetected\<close>
  is the verdict of \<open>attackPatternCheck\<close>, \<open>validate\<close> the result of the validation rules
  (the list of field errors, or the normalized email of a valid submission);
  \<open>windowMs\<close> and \<open>maxHits\<close> are the configuration of the IP limiter. The three clock
  reads of one request are inputs. The error list of the 400 body is left out.
\<close>

record 'r stages =
  attackDetected :: "'r \<Rightarrow> bool"
  validate :: "'r \<Rightarrow> obj list + string"
  toLowerCase :: "string \<Rightarrow> string"
  windowMs :: int
  maxHits :: nat




text \<open>The submissions recorded for a key; none when the key is not in the map.\<close>

definition submissionsOf :: "(string \<rightharpoonup> int list) \<Rightarrow> string \<Rightarrow> int list" where
  "submissionsOf subs key = (case subs key of None \<Rightarrow> [] | Some l \<Rightarrow> l)"

subsection \<open>Example requests of the contact route\<close>

text \<open>Lower-casing of the letters A to Z, for the examples.\<close>

definition asciiLower :: "string \<Rightarrow> string" where
  "asciiLower s =
     map (\<lambda>c. if 65 \<le> (of_char c :: nat) \<and> (of_char c :: nat) \<le> 90
               then char_of (of_char c + 32 :: nat) else c) s"






section \<open>The message sanitizer\<close>

text \<open>
  The text handled by the sanitizer is a list of UTF-16 code units, as a JavaScript
  string is; \<open>str\<close> gives the code units of an ASCII literal.
\<close>

definition str :: "string \<Rightarrow> nat list" where
  "str s = map of_char s"

text \<open>
  The character classes of the patterns. \<open>\s\<close> is white space and line terminators,
  \<open>\w\<close> is \<open>[A-Za-z0-9_]\<close>. The patterns carry the flag \<open>i\<close> without the flag
  \<open>u\<close>: a letter of a pattern matches its two ASCII cases and nothing else, and the
  classes are not widened.
\<close>

definition isSpace :: "nat \<Rightarrow> bool" where
  "isSpace c =
     (c \<in> {9, 10, 11, 12, 13, 32, 160, 5760, 8232, 8233, 8239, 8287, 12288, 65279} \<or>
      (8192 \<le> c \<and> c \<le> 8202))"

definition isWord :: "nat \<Rightarrow> bool" where
  "isWord c = ((48 \<le> c \<and> c \<le> 57) \<or> (65 \<le> c \<and> c \<le> 90) \<or> c = 95 \<or> (97 \<le> c \<and> c \<le> 122))"

definition isQuote :: "nat \<Rightarrow> bool" where
  "isQuote c = (c = 34 \<or> c = 39)"

definition lowerAscii :: "nat \<Rightarrow> nat" where
  "lowerAscii c = (if 65 \<le> c \<and> c \<le> 90 then c + 32 else c)"

text \<open>
  \<open>ciPrefix p s\<close>: the text \<open>s\<close> starts with the literal \<open>p\<close> (given in lower case),
  letters compared without case.
\<close>

definition ciPrefix :: "nat list \<Rightarrow> nat list \<Rightarrow> bool" where
  "ciPrefix p s = (length p \<le> length s \<and> map lowerAscii (take (length p) s) = p)"

text \<open>The first position at which the literal occurs, and the first position of a code unit.\<close>

fun findCi :: "nat list \<Rightarrow> nat list \<Rightarrow> nat option" where
  "findCi p [] = (if p = [] then Some 0 else None)"
| "findCi p (c # cs) =
     (if ciPrefix p (c # cs) then Some 0 else map_option Suc (findCi p cs))"

fun indexOf :: "nat \<Rightarrow> nat list \<Rightarrow> nat option" where
  "indexOf x [] = None"
| "indexOf x (c # cs) = (if c = x then Some 0 else map_option Suc (indexOf x cs))"

subsection \<open>The patterns\<close>

text \<open>
  A pattern is modelled by its matcher: given the text from a position on, the length
  of the match the backtracking matcher finds at that position, if any. None of the
  patterns looks behind the position.

  \<open><tag[^>]*>[\s\S]*?<\/tag>\<close>: the greedy \<open>[^>]*\<close> can only end at the first \<open>>\<close>,
  the lazy \<open>[\s\S]*?\<close> ends at the first closing tag after it.
\<close>

definition blockMatch :: "nat list \<Rightarrow> nat list \<Rightarrow> nat option" where
  "blockMatch tag s =
     (if ciPrefix (60 # tag) s then
        (let r1 = drop (Suc (length tag)) s in
         case indexOf 62 r1 of
           None \<Rightarrow> None
         | Some i \<Rightarrow>
             (case findCi (str ''</'' @ tag @ str ''>'') (drop (Suc i) r1) of
                None \<Rightarrow> None
              | Some j \<Rightarrow> Some (Suc (length tag) + Suc i + j + (length tag + 3))))
      else None)"

text \<open>\<open><tag[^>]*>\<close>.\<close>

definition openTagMatch :: "nat list \<Rightarrow> nat list \<Rightarrow> nat option" where
  "openTagMatch tag s =
     (if ciPrefix (60 # tag) s then
        map_option (\<lambda>i. Suc (length tag) + Suc i) (indexOf 62 (drop (Suc (length tag)) s))
      else None)"

text \<open>A literal, letters without case.\<close>

definition literalCi :: "nat list \<Rightarrow> nat list \<Rightarrow> nat option" where
  "literalCi p s = (if ciPrefix p s then Some (length p) else None)"

text \<open>An alternation: the first alternative, in the order written, that leads to a match.\<close>

fun firstOf :: "(nat list \<Rightarrow> nat option) list \<Rightarrow> nat list \<Rightarrow> nat option" where
  "firstOf [] s = None"
| "firstOf (m # ms) s = (case m s of Some n \<Rightarrow> Some n | None \<Rightarrow> firstOf ms s)"

text \<open>
  \<open>\s*on\w+\s*=\s*["'][^"']*["']\<close>: every greedy repetition is followed by something its
  class excludes, so each takes the longest run and giving back never helps.
\<close>

definition eventHandlerMatch :: "nat list \<Rightarrow> nat option" where
  "eventHandlerMatch s =
     (let ws0 = takeWhile isSpace s; r0 = dropWhile isSpace s in
      if \<not> ciPrefix (str ''on'') r0 then None
      else
        (let r1 = drop 2 r0; w = takeWhile isWord r1; r2 = dropWhile isWord r1 in
         if w = [] then None
         else
           (let ws1 = takeWhile isSpace r2; r3 = dropWhile isSpace r2 in
            case r3 of
              [] \<Rightarrow> None
            | e # r4 \<Rightarrow>
                if e \<noteq> 61 then None
                else
                  (let ws2 = takeWhile isSpace r4; r5 = dropWhile isSpace r4 in
                   case r5 of
                     [] \<Rightarrow> None
                   | q # r6 \<Rightarrow>
                       if \<not> isQuote q then None
                       else
                         (let v = takeWhile (\<lambda>c. \<not> isQuote c) r6;
                              r7 = dropWhile (\<lambda>c. \<not> isQuote c) r6
                          in case r7 of
                               [] \<Rightarrow> None
                             | q' # r8 \<Rightarrow>
                                 Some (length ws0 + 2 + length w + length ws1 + 1 +
                                       length ws2 + 1 + length v + 1))))))"

text \<open>A single code unit, and \<open>\s+\<close>.\<close>

definition charMatch :: "nat \<Rightarrow> nat list \<Rightarrow> nat option" where
  "charMatch x s = (case s of [] \<Rightarrow> None | c # cs \<Rightarrow> if c = x then Some 1 else None)"

definition spaceRun :: "nat list \<Rightarrow> nat option" where
  "spaceRun s = (case takeWhile isSpace s of [] \<Rightarrow> None | c # cs \<Rightarrow> Some (length (c # cs)))"

subsection \<open>Replacing every match\<close>

text \<open>
  \<open>text.replace(pattern, replacement)\<close> for a pattern with the flag \<open>g\<close>: scanning from
  the left, a match is replaced and the scan goes on behind it; \<open>k\<close> counts the code
  units of the current match still to skip. (After an empty match the scan moves on by
  one code unit; no pattern of the sanitizer matches the empty string.)
\<close>

fun replaceFrom :: "(nat list \<Rightarrow> nat option) \<Rightarrow> nat list \<Rightarrow> nat \<Rightarrow> nat list \<Rightarrow> nat list" where
  "replaceFrom m r k [] = []"
| "replaceFrom m r (Suc k) (c # cs) = replaceFrom m r k cs"
| "replaceFrom m r 0 (c # cs) =
     (case m (c # cs) of
        None \<Rightarrow> c # replaceFrom m r 0 cs
      | Some 0 \<Rightarrow> r @ c # replaceFrom m r 0 cs
      | Some (Suc n) \<Rightarrow> r @ replaceFrom m r n cs)"

definition replaceAll :: "(nat list \<Rightarrow> nat option) \<Rightarrow> nat list \<Rightarrow> nat list \<Rightarrow> nat list" where
  "replaceAll m r s = replaceFrom m r 0 s"

text \<open>\<open>String.prototype.trim\<close>.\<close>

definition jsTrim :: "nat list \<Rightarrow> nat list" where
  "jsTrim s = rev (dropWhile isSpace (rev (dropWhile isSpace s)))"

subsection \<open>sanitizeMessage\<close>

definition dangerousTags :: "nat list \<Rightarrow> nat option" where
  "dangerousTags =
     firstOf (map openTagMatch
       [str ''script'', str ''iframe'', str ''object'', str ''embed'', str ''form'',
        str ''input'', str ''textarea'', str ''button'', str ''link'', str ''meta''])"

text \<open>
  The argument is a string; the guard \<open>!text\<close> returns the empty string for the empty
  one.
\<close>

definition sanitizeMessage :: "nat list \<Rightarrow> nat list" where
  "sanitizeMessage text =
     (if text = [] then []
      else
        (let s1 = replaceAll (blockMatch (str ''script'')) [] text;
             s2 = replaceAll eventHandlerMatch [] s1;
             s3 = replaceAll
                    (firstOf [literalCi (str ''javascript:''), literalCi (str ''data:'')]) [] s2;
             s4 = replaceAll
                    (firstOf (map blockMatch
                       [str ''iframe'', str ''object'', str ''embed'', str ''form''])) [] s3;
             s5 = replaceAll (blockMatch (str ''style'')) [] s4;
             s6 = replaceAll dangerousTags [] s5;
             s7 = replaceAll (charMatch 62) (str ''&gt;'')
                    (replaceAll (charMatch 60) (str ''&lt;'') s6);
             s8 = replaceAll (charMatch 0) [] s7
         in jsTrim (replaceAll spaceRun [32] s8)))"

section \<open>Properties of the record stores\<close>

lemma findIndex_Some_less: "findIndex P xs = Some i \<Longrightarrow> i < length xs \<and> P (xs ! i)"
  by (induction xs arbitrary: i) (auto split: if_splits)

lemma findIndex_None_iff: "findIndex P xs = None \<longleftrightarrow> List.find P xs = None"
  by (induction xs) auto

text \<open>
  C10. Not-found mutations are pure reads: when no record carries the (numerically
  coerced) id, \<open>update\<close> and \<open>delete\<close> of either service return \<open>null\<close> and leave the
  whole state as it was: the in-memory list, the file and the count of file writes.
  The file is rewritten (one \<open>writeFile\<close> call) only when the id was found.
\<close>

theorem not_found_mutations_are_pure_reads:
  "(getProjectById N s ident = None \<longrightarrow>
      updateProject N w s ident patch = (Inr None, s) \<and>
      deleteProject N w s ident = (Inr None, s)) \<and>
   (getArticleById N a ident = None \<longrightarrow>
      updateArticle N w a ident patch = (Inr None, a) \<and>
      deleteArticle N w a ident = (Inr None, a)) \<and>
   (getProjectById N s ident \<noteq> None \<longrightarrow>
      writes (snd (updateProject N w s ident patch)) = writes s + 1 \<and>
      writes (snd (deleteProject N w s ident)) = writes s + 1) \<and>
   (getArticleById N a ident \<noteq> None \<longrightarrow>
      writes (snd (updateArticle N w a ident patch)) = writes a + 1 \<and>
      writes (snd (deleteArticle N w a ident)) = writes a + 1)"
proof -
  have p: "getProjectById N s ident = None \<longleftrightarrow>
      findIndex (\<lambda>p. strict_eq_num (getProp p ''id'') (ToNumber N ident)) (projects s) = None"
    by (simp add: getProjectById_def findIndex_None_iff)
  have a: "getArticleById N a ident = None \<longleftrightarrow>
      findIndex (\<lambda>p. strict_eq_num (getProp p ''id'') (ToNumber N ident)) (articles a) = None"
    by (simp add: getArticleById_def findIndex_None_iff)
  show ?thesis
    unfolding p a
    by (cases w)
      (auto simp: updateProject_def deleteProject_def updateArticle_def deleteArticle_def
        ProjectService_save_def ArticleService_save_def Let_def)
qed

theorem not_found_mutations_witness:
  "getProjectById decimal store12 (JString ''9999'') = None \<and>
   updateProject decimal WriteOk store12 (JString ''9999'') [''title'' \<mapsto> JString ''Z''] = (Inr None, store12) \<and>
   deleteProject decimal WriteOk store12 (JString ''9999'') = (Inr None, store12) \<and>
   getArticleById decimal astore1 (JString ''9999'') = None \<and>
   updateArticle decimal WriteOk astore1 (JString ''9999'') [''title'' \<mapsto> JString ''Z''] = (Inr None, astore1) \<and>
   deleteArticle decimal WriteOk astore1 (JString ''9999'') = (Inr None, astore1) \<and>
   getProjectById decimal store12 (JString ''1'') \<noteq> None \<and>
   writes (snd (deleteProject decimal WriteOk store12 (JString ''1''))) = 1 \<and>
   getArticleById decimal astore1 (JString ''1'') \<noteq> None \<and>
   writes (snd (deleteArticle decimal WriteOk astore1 (JString ''1''))) = 1"
proof -
  have n: "decimal ''9999'' = Num 9999" "decimal ''2'' = Num 2" "decimal ''1'' = Num 1"
    by (simp_all add: decimal_def)
  have 1: "getProjectById decimal store12 (JString ''9999'') = None"
    by (simp add: getProjectById_def store12_def project1_def project2_def getProp_def n)
  have 2: "getArticleById decimal astore1 (JString ''9999'') = None"
    by (simp add: getArticleById_def astore1_def article1_def getProp_def n)
  have 3: "getProjectById decimal store12 (JString ''1'') \<noteq> None"
    by (simp add: getProjectById_def store12_def project1_def project2_def getProp_def n)
  have 4: "getArticleById decimal astore1 (JString ''1'') \<noteq> None"
    by (simp add: getArticleById_def astore1_def article1_def getProp_def n)
  have w: "writes store12 = 0" "writes astore1 = 0"
    by (simp_all add: store12_def astore1_def)
  show ?thesis
    using not_found_mutations_are_pure_reads
      [of decimal store12 "JString ''9999''" WriteOk "[''title'' \<mapsto> JString ''Z'']" astore1]
      not_found_mutations_are_pure_reads
      [of decimal store12 "JString ''1''" WriteOk "[''title'' \<mapsto> JString ''Z'']" astore1]
    1 2 3 4 w
    by simp
qed

lemma max2_Num_fold: "Math_max (Num a) (map Num xs) = Num (fold max xs a)"
  by (induction xs arbitrary: a) (auto simp: max.commute)

lemma safe_id_numeric: "has_safe_id p \<Longrightarrow> has_numeric_id p"
  by (auto simp: has_safe_id_def has_numeric_id_def split: jsval.splits jsnum.splits)

lemma safe_ids_numeric: "list_all has_safe_id ps \<Longrightarrow> list_all has_numeric_id ps"
  by (auto simp: list_all_iff safe_id_numeric)

lemma safe_id_bounds:
  "has_safe_id p \<Longrightarrow> - 9007199254740992 < idNum p \<and> idNum p < 9007199254740992"
  by (auto simp: has_safe_id_def idNum_def split: jsval.splits jsnum.splits)

lemma numeric_id_ToNumber:
  "has_numeric_id p \<Longrightarrow> ToNumber N (getProp p ''id'') = Num (idNum p)"
  by (auto simp: has_numeric_id_def idNum_def split: jsval.splits jsnum.splits)

lemma numeric_ids_map:
  "list_all has_numeric_id ps \<Longrightarrow>
     map (\<lambda>p. ToNumber N (getProp p ''id'')) ps = map Num (map idNum ps)"
  by (induction ps) (auto simp: numeric_id_ToNumber)

lemma Max_safe:
  assumes "list_all has_safe_id ps" "ps \<noteq> []"
  shows "- 9007199254740992 < Max (set (map idNum ps)) \<and>
         Max (set (map idNum ps)) < 9007199254740992"
proof -
  have "Max (set (map idNum ps)) \<in> set (map idNum ps)"
    using assms(2) by (intro Max_in) simp_all
  then obtain p where "p \<in> set ps" "Max (set (map idNum ps)) = idNum p"
    by auto
  with assms(1) safe_id_bounds [of p] show ?thesis
    by (simp add: list_all_iff)
qed

lemma newId_numeric:
  assumes "list_all has_safe_id ps"
  shows "newId N ps = Num (if ps = [] then 1 else Max (set (map idNum ps)) + 1)"
proof (cases ps)
  case Nil
  then show ?thesis by (simp add: newId_def)
next
  case (Cons p ps')
  have num: "list_all has_numeric_id ps"
    using assms by (rule safe_ids_numeric)
  have mx: "Max (set (map idNum (p # ps'))) = fold max (map idNum ps') (idNum p)"
    using Max.set_eq_fold [of "idNum p" "map idNum ps'"] by simp
  have h: "ToNumber N (getProp p ''id'') = Num (idNum p)"
    using num Cons by (simp add: numeric_id_ToNumber)
  have m: "map (\<lambda>p. ToNumber N (getProp p ''id'')) ps' = map Num (map idNum ps')"
    using num Cons by (simp add: numeric_ids_map)
  have "newId N ps = plus1 (Math_max (Num (idNum p)) (map Num (map idNum ps')))"
    by (simp add: newId_def Cons h m)
  also have "\<dots> = plus1 (Num (Max (set (map idNum ps))))"
    by (simp only: max2_Num_fold mx [symmetric] Cons)
  also have "\<dots> = Num (Max (set (map idNum ps)) + 1)"
    using Max_safe [OF assms] Cons by simp
  finally show ?thesis
    using Cons by simp
qed

lemma newId_greater:
  assumes "list_all has_safe_id ps" "p \<in> set ps"
  shows "\<exists>n. newId N ps = Num n \<and> idNum p < n"
proof -
  have "idNum p \<le> Max (set (map idNum ps))" using assms(2) by simp
  moreover have "ps \<noteq> []" using assms(2) by auto
  ultimately show ?thesis using newId_numeric [OF assms(1), of N] by auto
qed

text \<open>
  Beyond the safe integers the sum is no longer exact: for a store whose only id is
  \<open>2^53\<close>, the new id is \<open>2^53\<close> again.
\<close>

lemma newId_beyond_safe_range:
  "newId N [[''id'' \<mapsto> JNumber (Num 9007199254740992)]] = Num 9007199254740992"
  by (simp add: newId_def getProp_def)

lemma strict_eq_num_numeric:
  "has_numeric_id p \<Longrightarrow> strict_eq_num (getProp p ''id'') n \<longleftrightarrow> n = Num (idNum p)"
  by (cases n) (auto simp: has_numeric_id_def idNum_def split: jsval.splits jsnum.splits)

lemma find_None_after_remove:
  assumes "distinct (map f xs)" "i < length xs"
  shows "List.find (\<lambda>x. f x = f (xs ! i)) (take i xs @ drop (Suc i) xs) = None"
proof -
  have "xs = take i xs @ xs ! i # drop (Suc i) xs"
    using assms(2) by (rule id_take_nth_drop)
  then have "distinct (map f (take i xs @ xs ! i # drop (Suc i) xs))"
    using assms(1) by simp
  then have "f (xs ! i) \<notin> f ` set (take i xs) \<and> f (xs ! i) \<notin> f ` set (drop (Suc i) xs)"
    by auto
  then have "\<forall>x \<in> set (take i xs) \<union> set (drop (Suc i) xs). f x \<noteq> f (xs ! i)"
    by (metis UnE image_eqI)
  then show ?thesis
    unfolding find_None_iff by auto
qed


lemma id_of_new_record:
  "d ''id'' = None \<Longrightarrow> getProp (spread [''id'' \<mapsto> JNumber n] d) ''id'' = JNumber n"
  by (simp add: getProp_def spread_def map_add_def)

lemma remove_nth_subset: "set (take i xs @ drop (Suc i) xs) \<subseteq> set xs"
  by (auto dest: in_set_takeD in_set_dropD)

lemma distinct_map_remove_nth:
  "distinct (map f xs) \<Longrightarrow> distinct (map f (take i xs @ drop (Suc i) xs))"
proof (induction xs arbitrary: i)
  case Nil
  then show ?case by simp
next
  case (Cons x xs)
  show ?case
  proof (cases i)
    case 0
    with Cons.prems show ?thesis by simp
  next
    case (Suc j)
    have "f x \<notin> f ` set (take j xs @ drop (Suc j) xs)"
      using Cons.prems remove_nth_subset [of j xs] by auto
    with Cons Suc show ?thesis by (auto simp: image_Un)
  qed
qed

lemma new_record_ids:
  assumes wf: "list_all has_safe_id ps"
    and dist: "distinct (map idNum ps)"
    and rid: "getProp r ''id'' = JNumber (newId N ps)"
  shows "getProp r ''id'' =
           JNumber (Num (if ps = [] then 1 else Max (set (map idNum ps)) + 1))"
    and "\<forall>p \<in> set ps. idNum p < idNum r"
    and "list_all has_numeric_id (ps @ [r])"
    and "distinct (map idNum (ps @ [r]))"
proof -
  let ?n = "if ps = [] then 1 else Max (set (map idNum ps)) + 1"
  have nid: "newId N ps = Num ?n"
    by (rule newId_numeric [OF wf])
  with rid show r: "getProp r ''id'' = JNumber (Num ?n)" by simp
  then have rnum: "has_numeric_id r" "idNum r = ?n"
    by (simp_all add: has_numeric_id_def idNum_def)
  show gt: "\<forall>p \<in> set ps. idNum p < idNum r"
  proof
    fix p assume "p \<in> set ps"
    from newId_greater [OF wf this, of N] nid rnum(2) show "idNum p < idNum r" by auto
  qed
  show "list_all has_numeric_id (ps @ [r])"
    using safe_ids_numeric [OF wf] rnum(1) by simp
  show "distinct (map idNum (ps @ [r]))"
    using dist gt by auto
qed

lemma removed_record_ids:
  assumes wf: "list_all has_safe_id ps"
    and dist: "distinct (map idNum ps)"
    and i: "findIndex (\<lambda>p. strict_eq_num (getProp p ''id'') (ToNumber N ident)) ps = Some i"
  shows "List.find (\<lambda>p. strict_eq_num (getProp p ''id'') (ToNumber N ident))
           (take i ps @ drop (Suc i) ps) = None"
    and "list_all has_safe_id (take i ps @ drop (Suc i) ps)"
    and "distinct (map idNum (take i ps @ drop (Suc i) ps))"
    and "newId N (take i ps @ drop (Suc i) ps) =
           Num (if take i ps @ drop (Suc i) ps = [] then 1
                else Max (set (map idNum (take i ps @ drop (Suc i) ps))) + 1)"
    and "(\<exists>p \<in> set (take i ps @ drop (Suc i) ps). idNum (ps ! i) < idNum p) \<longrightarrow>
           newId N (take i ps @ drop (Suc i) ps) \<noteq> Num (idNum (ps ! i))"
proof -
  let ?P = "\<lambda>p. strict_eq_num (getProp p ''id'') (ToNumber N ident)"
  let ?ps' = "take i ps @ drop (Suc i) ps"
  from i have il: "i < length ps" and iP: "?P (ps ! i)"
    using findIndex_Some_less by fastforce+
  have dn: "has_numeric_id (ps ! i)"
    using safe_ids_numeric [OF wf] il by (simp add: list_all_length)
  have tn: "ToNumber N ident = Num (idNum (ps ! i))"
    using iP dn by (simp add: strict_eq_num_numeric)
  have sub: "set ?ps' \<subseteq> set ps"
    by (rule remove_nth_subset)
  then show wf2: "list_all has_safe_id ?ps'"
    using wf by (auto simp: list_all_iff)
  show "distinct (map idNum ?ps')"
    using dist by (rule distinct_map_remove_nth)
  have "List.find (\<lambda>x. idNum x = idNum (ps ! i)) ?ps' = None"
    using dist il by (rule find_None_after_remove)
  then show "List.find ?P ?ps' = None"
    using safe_ids_numeric [OF wf2] unfolding find_None_iff tn
    by (auto simp: list_all_iff strict_eq_num_numeric)
  show "newId N ?ps' = Num (if ?ps' = [] then 1 else Max (set (map idNum ?ps')) + 1)"
    by (rule newId_numeric [OF wf2])
  show "(\<exists>p \<in> set ?ps'. idNum (ps ! i) < idNum p) \<longrightarrow> newId N ?ps' \<noteq> Num (idNum (ps ! i))"
  proof
    assume "\<exists>p \<in> set ?ps'. idNum (ps ! i) < idNum p"
    then obtain p where p: "p \<in> set ?ps'" "idNum (ps ! i) < idNum p" by blast
    from newId_greater [OF wf2 p(1), of N] p(2)
    show "newId N ?ps' \<noteq> Num (idNum (ps ! i))" by auto
  qed
qed

text \<open>
  C1 (as amended). In a store (of projects or of articles) whose records carry distinct
  ids that are safe integers, \<open>add\<close> of data without an \<open>id\<close> property of its own gives the
  new record the id \<open>max(existing ids) + 1\<close> (\<open>1\<close> for the empty store), which is greater
  than every id in the store, so ids stay distinct. After a successful \<open>delete(id)\<close>,
  \<open>getById(id)\<close> finds nothing, and the id the next \<open>add\<close> assigns is
  \<open>max(remaining ids) + 1\<close> (\<open>1\<close> when nothing remains): it is the deleted id again
  exactly when the deleted id is that number, and never while a record with a greater
  id remains.
\<close>

theorem id_discipline:
  assumes wf: "list_all has_safe_id (projects s)"
    and dist: "distinct (map idNum (projects s))"
    and wfa: "list_all has_safe_id (articles a)"
    and dista: "distinct (map idNum (articles a))"
    and noid: "newData ''id'' = None"
  shows
    "(\<exists>r s1. addProject N WriteOk s newData = (Inr r, s1) \<and>
        projects s1 = projects s @ [r] \<and>
        getProp r ''id'' =
          JNumber (Num (if projects s = [] then 1
                        else Max (set (map idNum (projects s))) + 1)) \<and>
        (\<forall>p \<in> set (projects s). idNum p < idNum r) \<and>
        list_all has_numeric_id (projects s1) \<and> distinct (map idNum (projects s1))) \<and>
     (\<forall>d s2. deleteProject N w s ident = (Inr (Some d), s2) \<longrightarrow>
        getProjectById N s2 ident = None \<and>
        list_all has_safe_id (projects s2) \<and> distinct (map idNum (projects s2)) \<and>
        newId N (projects s2) =
          Num (if projects s2 = [] then 1 else Max (set (map idNum (projects s2))) + 1) \<and>
        (newId N (projects s2) = Num (idNum d) \<longleftrightarrow>
           idNum d =
             (if projects s2 = [] then 1 else Max (set (map idNum (projects s2))) + 1)) \<and>
        ((\<exists>p \<in> set (projects s2). idNum d < idNum p) \<longrightarrow>
           newId N (projects s2) \<noteq> Num (idNum d))) \<and>
     (\<exists>r a1. addArticle N nowIso WriteOk a newData = (Inr r, a1) \<and>
        articles a1 = articles a @ [r] \<and>
        getProp r ''id'' =
          JNumber (Num (if articles a = [] then 1
                        else Max (set (map idNum (articles a))) + 1)) \<and>
        (\<forall>p \<in> set (articles a). idNum p < idNum r) \<and>
        list_all has_numeric_id (articles a1) \<and> distinct (map idNum (articles a1))) \<and>
     (\<forall>d a2. deleteArticle N w a ident = (Inr (Some d), a2) \<longrightarrow>
        getArticleById N a2 ident = None \<and>
        list_all has_safe_id (articles a2) \<and> distinct (map idNum (articles a2)) \<and>
        newId N (articles a2) =
          Num (if articles a2 = [] then 1 else Max (set (map idNum (articles a2))) + 1) \<and>
        (newId N (articles a2) = Num (idNum d) \<longleftrightarrow>
           idNum d =
             (if articles a2 = [] then 1 else Max (set (map idNum (articles a2))) + 1)) \<and>
        ((\<exists>p \<in> set (articles a2). idNum d < idNum p) \<longrightarrow>
           newId N (articles a2) \<noteq> Num (idNum d)))"
proof (intro conjI)
  let ?r = "spread [''id'' \<mapsto> JNumber (newId N (projects s))] newData"
  have rid: "getProp ?r ''id'' = JNumber (newId N (projects s))"
    using id_of_new_record [of newData] noid by simp
  have "addProject N WriteOk s newData =
          (Inr ?r, s\<lparr>projects := projects s @ [?r],
                      disk := Some (JSON_stringify (projects s @ [?r])),
                      writes := writes s + 1\<rparr>)"
    by (simp add: addProject_def ProjectService_save_def Let_def)
  then show "\<exists>r s1. addProject N WriteOk s newData = (Inr r, s1) \<and>
        projects s1 = projects s @ [r] \<and>
        getProp r ''id'' =
          JNumber (Num (if projects s = [] then 1
                        else Max (set (map idNum (projects s))) + 1)) \<and>
        (\<forall>p \<in> set (projects s). idNum p < idNum r) \<and>
        list_all has_numeric_id (projects s1) \<and> distinct (map idNum (projects s1))"
    using new_record_ids [OF wf dist rid] by simp
next
  show "\<forall>d s2. deleteProject N w s ident = (Inr (Some d), s2) \<longrightarrow>
        getProjectById N s2 ident = None \<and>
        list_all has_safe_id (projects s2) \<and> distinct (map idNum (projects s2)) \<and>
        newId N (projects s2) =
          Num (if projects s2 = [] then 1 else Max (set (map idNum (projects s2))) + 1) \<and>
        (newId N (projects s2) = Num (idNum d) \<longleftrightarrow>
           idNum d =
             (if projects s2 = [] then 1 else Max (set (map idNum (projects s2))) + 1)) \<and>
        ((\<exists>p \<in> set (projects s2). idNum d < idNum p) \<longrightarrow>
           newId N (projects s2) \<noteq> Num (idNum d))"
  proof (intro allI impI)
    fix d s2
    assume del: "deleteProject N w s ident = (Inr (Some d), s2)"
    let ?P = "\<lambda>p. strict_eq_num (getProp p ''id'') (ToNumber N ident)"
    from del obtain i where i: "findIndex ?P (projects s) = Some i"
      by (auto simp: deleteProject_def Let_def split: option.splits)
    from del i have d: "d = projects s ! i"
      and s2: "projects s2 = take i (projects s) @ drop (Suc i) (projects s)"
      by (auto simp: deleteProject_def ProjectService_save_def Let_def
          split: write_outcome.splits)
    note r = removed_record_ids [OF wf dist i]
    have eq: "newId N (projects s2) = Num (idNum d) \<longleftrightarrow>
           idNum d =
             (if projects s2 = [] then 1 else Max (set (map idNum (projects s2))) + 1)"
      unfolding s2 r(4) by auto
    show "getProjectById N s2 ident = None \<and>
        list_all has_safe_id (projects s2) \<and> distinct (map idNum (projects s2)) \<and>
        newId N (projects s2) =
          Num (if projects s2 = [] then 1 else Max (set (map idNum (projects s2))) + 1) \<and>
        (newId N (projects s2) = Num (idNum d) \<longleftrightarrow>
           idNum d =
             (if projects s2 = [] then 1 else Max (set (map idNum (projects s2))) + 1)) \<and>
        ((\<exists>p \<in> set (projects s2). idNum d < idNum p) \<longrightarrow>
           newId N (projects s2) \<noteq> Num (idNum d))"
      using r eq unfolding getProjectById_def s2 d by blast
  qed
next
  let ?r = "(spread [''id'' \<mapsto> JNumber (newId N (articles a))] newData)
              (''date'' \<mapsto>
                 (if truthy (getProp newData ''date'') then getProp newData ''date''
                  else JString nowIso))"
  have rid: "getProp ?r ''id'' = JNumber (newId N (articles a))"
    using id_of_new_record [of newData] noid by (simp add: getProp_def)
  have "addArticle N nowIso WriteOk a newData =
          (Inr ?r, a\<lparr>articles := articles a @ [?r],
                      disk := Some (JSON_stringify (articles a @ [?r])),
                      writes := writes a + 1\<rparr>)"
    by (simp add: addArticle_def ArticleService_save_def Let_def)
  then show "\<exists>r a1. addArticle N nowIso WriteOk a newData = (Inr r, a1) \<and>
        articles a1 = articles a @ [r] \<and>
        getProp r ''id'' =
          JNumber (Num (if articles a = [] then 1
                        else Max (set (map idNum (articles a))) + 1)) \<and>
        (\<forall>p \<in> set (articles a). idNum p < idNum r) \<and>
        list_all has_numeric_id (articles a1) \<and> distinct (map idNum (articles a1))"
    using new_record_ids [OF wfa dista rid] by simp
next
  show "\<forall>d a2. deleteArticle N w a ident = (Inr (Some d), a2) \<longrightarrow>
        getArticleById N a2 ident = None \<and>
        list_all has_safe_id (articles a2) \<and> distinct (map idNum (articles a2)) \<and>
        newId N (articles a2) =
          Num (if articles a2 = [] then 1 else Max (set (map idNum (articles a2))) + 1) \<and>
        (newId N (articles a2) = Num (idNum d) \<longleftrightarrow>
           idNum d =
             (if articles a2 = [] then 1 else Max (set (map idNum (articles a2))) + 1)) \<and>
        ((\<exists>p \<in> set (articles a2). idNum d < idNum p) \<longrightarrow>
           newId N (articles a2) \<noteq> Num (idNum d))"
  proof (intro allI impI)
    fix d a2
    assume del: "deleteArticle N w a ident = (Inr (Some d), a2)"
    let ?P = "\<lambda>p. strict_eq_num (getProp p ''id'') (ToNumber N ident)"
    from del obtain i where i: "findIndex ?P (articles a) = Some i"
      by (auto simp: deleteArticle_def Let_def split: option.splits)
    from del i have d: "d = articles a ! i"
      and a2: "articles a2 = take i (articles a) @ drop (Suc i) (articles a)"
      by (auto simp: deleteArticle_def ArticleService_save_def Let_def
          split: write_outcome.splits)
    note r = removed_record_ids [OF wfa dista i]
    have eq: "newId N (articles a2) = Num (idNum d) \<longleftrightarrow>
           idNum d =
             (if articles a2 = [] then 1 else Max (set (map idNum (articles a2))) + 1)"
      unfolding a2 r(4) by auto
    show "getArticleById N a2 ident = None \<and>
        list_all has_safe_id (articles a2) \<and> distinct (map idNum (articles a2)) \<and>
        newId N (articles a2) =
          Num (if articles a2 = [] then 1 else Max (set (map idNum (articles a2))) + 1) \<and>
        (newId N (articles a2) = Num (idNum d) \<longleftrightarrow>
           idNum d =
             (if articles a2 = [] then 1 else Max (set (map idNum (articles a2))) + 1)) \<and>
        ((\<exists>p \<in> set (articles a2). idNum d < idNum p) \<longrightarrow>
           newId N (articles a2) \<noteq> Num (idNum d))"
      using r eq unfolding getArticleById_def a2 d by blast
  qed
qed

lemma decimal_examples:
  "decimal ''1'' = Num 1" "decimal ''2'' = Num 2" "decimal ''9999'' = Num 9999"
  by (simp_all add: decimal_def)

lemma store12_delete1:
  "deleteProject decimal WriteOk store12 (JString ''1'') =
     (Inr (Some project1),
      store12\<lparr>projects := [project2], disk := Some (JSON_stringify [project2]), writes := 1\<rparr>)"
  by (simp add: deleteProject_def ProjectService_save_def Let_def store12_def project1_def
      project2_def getProp_def decimal_examples)

lemma store12_delete2:
  "deleteProject decimal WriteOk store12 (JString ''2'') =
     (Inr (Some project2),
      store12\<lparr>projects := [project1], disk := Some (JSON_stringify [project1]), writes := 1\<rparr>)"
  by (simp add: deleteProject_def ProjectService_save_def Let_def store12_def project1_def
      project2_def getProp_def decimal_examples)

lemma store12_wf:
  "list_all has_safe_id (projects store12)" "distinct (map idNum (projects store12))"
  by (simp_all add: store12_def has_safe_id_def idNum_def project1_def project2_def getProp_def)

theorem id_discipline_witness:
  "list_all has_safe_id (projects store12) \<and>
   distinct (map idNum (projects store12)) \<and>
   list_all has_safe_id (articles astore1) \<and>
   distinct (map idNum (articles astore1)) \<and>
   [''title'' \<mapsto> JString ''Z''] ''id'' = None \<and>
   fst (addProject decimal WriteOk store12 [''title'' \<mapsto> JString ''Z'']) =
     Inr [''id'' \<mapsto> JNumber (Num 3), ''title'' \<mapsto> JString ''Z''] \<and>
   getProjectById decimal
     (snd (deleteProject decimal WriteOk store12 (JString ''1''))) (JString ''1'') = None \<and>
   newId decimal (projects (snd (deleteProject decimal WriteOk store12 (JString ''1'')))) \<noteq> Num 1 \<and>
   newId decimal (projects (snd (deleteProject decimal WriteOk store12 (JString ''1'')))) = Num 3"
proof -
  have noid: "[''title'' \<mapsto> JString ''Z''] ''id'' = None" by simp
  have awf: "list_all has_safe_id (articles astore1)" "distinct (map idNum (articles astore1))"
    by (simp_all add: astore1_def has_safe_id_def article1_def getProp_def)
  note th = id_discipline [where s = store12 and a = astore1
      and newData = "[''title'' \<mapsto> JString ''Z'']"
      and N = decimal and w = WriteOk and ident = "JString ''1''", OF store12_wf awf noid]
  have add: "fst (addProject decimal WriteOk store12 [''title'' \<mapsto> JString ''Z'']) =
     Inr [''id'' \<mapsto> JNumber (Num 3), ''title'' \<mapsto> JString ''Z'']"
    by (simp add: addProject_def ProjectService_save_def Let_def newId_def store12_def
        project1_def project2_def getProp_def spread_def)
  have p2: "\<exists>p \<in> set [project2]. idNum project1 < idNum p"
    by (simp add: idNum_def project1_def project2_def getProp_def)
  have i1: "idNum project1 = 1"
    by (simp add: idNum_def project1_def getProp_def)
  have m2: "Max (set (map idNum [project2])) + 1 = 3"
    by (simp add: idNum_def project2_def getProp_def)
  from th have
    "\<forall>d s2. deleteProject decimal WriteOk store12 (JString ''1'') = (Inr (Some d), s2) \<longrightarrow>
        getProjectById decimal s2 (JString ''1'') = None \<and>
        newId decimal (projects s2) =
          Num (if projects s2 = [] then 1 else Max (set (map idNum (projects s2))) + 1) \<and>
        ((\<exists>p \<in> set (projects s2). idNum d < idNum p) \<longrightarrow>
           newId decimal (projects s2) \<noteq> Num (idNum d))"
    by blast
  with store12_delete1 p2 i1 m2 have
    "getProjectById decimal
       (snd (deleteProject decimal WriteOk store12 (JString ''1''))) (JString ''1'') = None \<and>
     newId decimal (projects (snd (deleteProject decimal WriteOk store12 (JString ''1'')))) \<noteq> Num 1 \<and>
     newId decimal (projects (snd (deleteProject decimal WriteOk store12 (JString ''1'')))) = Num 3"
    by simp
  with store12_wf awf noid add show ?thesis by simp
qed

text \<open>
  C1 as stated fails: ids are reused. Deleting the record with the greatest id (2) from
  the store holding ids 1 and 2 succeeds, and the next \<open>add\<close> returns a record that
  carries the id 2 again.
\<close>

theorem deleted_id_reused:
  "deleteProject decimal WriteOk store12 (JString ''2'') =
     (Inr (Some project2),
      store12\<lparr>projects := [project1], disk := Some (JSON_stringify [project1]), writes := 1\<rparr>) \<and>
   getProp project2 ''id'' = JNumber (Num 2) \<and>
   fst (addProject decimal WriteOk
          (store12\<lparr>projects := [project1], disk := Some (JSON_stringify [project1]),
                    writes := 1\<rparr>)
          [''title'' \<mapsto> JString ''Z'']) =
     Inr [''id'' \<mapsto> JNumber (Num 2), ''title'' \<mapsto> JString ''Z'']"
proof -
  have "fst (addProject decimal WriteOk
          (store12\<lparr>projects := [project1], disk := Some (JSON_stringify [project1]),
                    writes := 1\<rparr>)
          [''title'' \<mapsto> JString ''Z'']) =
     Inr [''id'' \<mapsto> JNumber (Num 2), ''title'' \<mapsto> JString ''Z'']"
    by (simp add: addProject_def ProjectService_save_def Let_def newId_def store12_def
        project1_def getProp_def spread_def)
  moreover have "getProp project2 ''id'' = JNumber (Num 2)"
    by (simp add: project2_def getProp_def)
  ultimately show ?thesis using store12_delete2 by simp
qed

lemma optional_prop_defined: "optional_prop k v x \<noteq> Some JUndefined"
  by (auto simp: optional_prop_def)

lemma spread_defined:
  "a x \<noteq> Some JUndefined \<Longrightarrow> b x \<noteq> Some JUndefined \<Longrightarrow> spread a b x \<noteq> Some JUndefined"
  by (auto simp: spread_def map_add_def split: option.splits)

lemma put_updateData_defined: "put_updateData reqBody uploaded k \<noteq> Some JUndefined"
  unfolding put_updateData_def
  by (intro spread_defined optional_prop_defined)

lemma getProp_spread:
  "getProp (spread old patch) k = (case patch k of Some v \<Rightarrow> v | None \<Rightarrow> getProp old k)"
  by (simp add: getProp_def spread_def map_add_def split: option.splits)

text \<open>
  C4 (as amended). When a record has the (numerically coerced) id, \<open>update(id, patch)\<close>
  replaces the first such record by the shallow merge of the patch over it, in which
  every own property of the patch overwrites, one whose value is \<open>undefined\<close> included;
  when the file rewrite succeeds it returns the updated and the prior record. When no
  record has the id it returns \<open>null\<close>. Leaving out the empty fields is the work of the
  route handler: the patch it builds never holds an \<open>undefined\<close> value.
\<close>

theorem update_shallow_merge:
  "(findIndex (\<lambda>p. strict_eq_num (getProp p ''id'') (ToNumber N ident)) (projects s) = Some i \<longrightarrow>
      fst (updateProject N WriteOk s ident patch) =
        Inr (Some (spread (projects s ! i) patch, projects s ! i)) \<and>
      projects (snd (updateProject N w s ident patch)) =
        (projects s)[i := spread (projects s ! i) patch]) \<and>
   (findIndex (\<lambda>p. strict_eq_num (getProp p ''id'') (ToNumber N ident)) (articles a) = Some j \<longrightarrow>
      fst (updateArticle N WriteOk a ident patch) =
        Inr (Some (spread (articles a ! j) patch, articles a ! j)) \<and>
      articles (snd (updateArticle N w a ident patch)) =
        (articles a)[j := spread (articles a ! j) patch]) \<and>
   (\<forall>old k. getProp (spread old patch) k =
      (case patch k of Some v \<Rightarrow> v | None \<Rightarrow> getProp old k)) \<and>
   (getProjectById N s ident = None \<longrightarrow> fst (updateProject N w s ident patch) = Inr None) \<and>
   (getArticleById N a ident = None \<longrightarrow> fst (updateArticle N w a ident patch) = Inr None) \<and>
   (\<forall>k. put_updateData reqBody uploaded k \<noteq> Some JUndefined)"
proof -
  have u: "put_updateData reqBody uploaded k \<noteq> Some JUndefined" for k
    by (rule put_updateData_defined)
  have p: "getProjectById N s ident = None \<longleftrightarrow>
      findIndex (\<lambda>p. strict_eq_num (getProp p ''id'') (ToNumber N ident)) (projects s) = None"
    by (simp add: getProjectById_def findIndex_None_iff)
  have a: "getArticleById N a ident = None \<longleftrightarrow>
      findIndex (\<lambda>p. strict_eq_num (getProp p ''id'') (ToNumber N ident)) (articles a) = None"
    by (simp add: getArticleById_def findIndex_None_iff)
  show ?thesis
    unfolding p a
    using u
    by (cases w)
      (auto simp: updateProject_def updateArticle_def getProp_spread
        ProjectService_save_def ArticleService_save_def Let_def)
qed

theorem update_shallow_merge_witness:
  "findIndex (\<lambda>p. strict_eq_num (getProp p ''id'') (ToNumber decimal (JString ''2'')))
     (projects store12) = Some 1 \<and>
   fst (updateProject decimal WriteOk store12 (JString ''2'') [''title'' \<mapsto> JString ''Z'']) =
     Inr (Some ([''id'' \<mapsto> JNumber (Num 2), ''title'' \<mapsto> JString ''Z''], project2)) \<and>
   projects (snd (updateProject decimal WriteOk store12 (JString ''2'') [''title'' \<mapsto> JString ''Z''])) =
     [project1, [''id'' \<mapsto> JNumber (Num 2), ''title'' \<mapsto> JString ''Z'']] \<and>
   findIndex (\<lambda>p. strict_eq_num (getProp p ''id'') (ToNumber decimal (JString ''1'')))
     (articles astore1) = Some 0 \<and>
   fst (updateArticle decimal WriteOk astore1 (JString ''1'') [''title'' \<mapsto> JString ''Z'']) =
     Inr (Some ([''id'' \<mapsto> JNumber (Num 1), ''title'' \<mapsto> JString ''Z''], article1)) \<and>
   getProjectById decimal store12 (JString ''9999'') = None \<and>
   fst (updateProject decimal WriteOk store12 (JString ''9999'') [''title'' \<mapsto> JString ''Z'']) = Inr None \<and>
   getArticleById decimal astore1 (JString ''9999'') = None \<and>
   fst (updateArticle decimal WriteOk astore1 (JString ''9999'') [''title'' \<mapsto> JString ''Z'']) = Inr None"
proof -
  have f2: "findIndex (\<lambda>p. strict_eq_num (getProp p ''id'') (ToNumber decimal (JString ''2'')))
     (projects store12) = Some 1"
    by (simp add: store12_def project1_def project2_def getProp_def decimal_examples)
  have f1: "findIndex (\<lambda>p. strict_eq_num (getProp p ''id'') (ToNumber decimal (JString ''1'')))
     (articles astore1) = Some 0"
    by (simp add: astore1_def article1_def getProp_def decimal_examples)
  have n1: "getProjectById decimal store12 (JString ''9999'') = None"
    by (simp add: getProjectById_def store12_def project1_def project2_def getProp_def
        decimal_examples)
  have n2: "getArticleById decimal astore1 (JString ''9999'') = None"
    by (simp add: getArticleById_def astore1_def article1_def getProp_def decimal_examples)
  have m: "spread project2 [''title'' \<mapsto> JString ''Z''] =
             [''id'' \<mapsto> JNumber (Num 2), ''title'' \<mapsto> JString ''Z'']"
      "spread article1 [''title'' \<mapsto> JString ''Z''] =
             [''id'' \<mapsto> JNumber (Num 1), ''title'' \<mapsto> JString ''Z'']"
    by (simp_all add: spread_def project2_def article1_def)
  have v: "projects store12 = [project1, project2]" "articles astore1 = [article1]"
    by (simp_all add: store12_def astore1_def)
  from update_shallow_merge [where N = decimal and s = store12 and ident = "JString ''2''"
      and i = 1 and w = WriteOk and patch = "[''title'' \<mapsto> JString ''Z'']" and a = astore1
      and j = 0]
    update_shallow_merge [where N = decimal and s = store12 and ident = "JString ''1''"
      and i = 1 and w = WriteOk and patch = "[''title'' \<mapsto> JString ''Z'']" and a = astore1
      and j = 0]
    update_shallow_merge [where N = decimal and s = store12 and ident = "JString ''9999''"
      and i = 1 and w = WriteOk and patch = "[''title'' \<mapsto> JString ''Z'']" and a = astore1
      and j = 0]
    f2 f1 n1 n2
  show ?thesis by (simp add: m v)
qed

text \<open>
  C4 as stated fails: a patch property whose value is \<open>undefined\<close> does overwrite.
  Updating project 1 (title \<open>Ponte X\<close>) with the patch \<open>{title: undefined}\<close> stores
  and returns a record whose title is \<open>undefined\<close>.
\<close>

theorem undefined_patch_field_overwrites:
  "fst (updateProject decimal WriteOk store12 (JString ''1'') [''title'' \<mapsto> JUndefined]) =
     Inr (Some ([''id'' \<mapsto> JNumber (Num 1), ''title'' \<mapsto> JUndefined], project1)) \<and>
   getProp project1 ''title'' = JString ''Ponte X'' \<and>
   getProp [''id'' \<mapsto> JNumber (Num 1), ''title'' \<mapsto> JUndefined] ''title'' = JUndefined"
  by (simp add: updateProject_def ProjectService_save_def Let_def store12_def project1_def
      project2_def getProp_def spread_def decimal_examples)

lemma stringify_append_neq: "JSON_stringify (ps @ [r]) \<noteq> JSON_stringify ps"
proof
  assume "JSON_stringify (ps @ [r]) = JSON_stringify ps"
  then have "length (map jsonify (ps @ [r])) = length (map jsonify ps)"
    by (simp add: JSON_stringify_def)
  then show False by simp
qed

text \<open>
  C5 (as amended). When the file rewrite inside \<open>add\<close> fails, \<open>add\<close> of either store throws
  the persistence error (\<open>Failed to save project data\<close>, \<open>Failed to save article data\<close>)
  after logging it, and the new record, with its id and (for an article) its date,
  is nevertheless the last element of the in-memory list: nothing is rolled back. The
  file holds what the failed write left. Memory and file differ afterwards whenever
  the file held the list as it was before the call and the failed write left the file
  as it was.
\<close>

theorem add_write_failure_not_rolled_back:
  "addProject N (WriteFails left) s newData =
     (Inl (Error ''Failed to save project data''),
      s\<lparr>projects := projects s @ [spread [''id'' \<mapsto> JNumber (newId N (projects s))] newData],
        disk := left, writes := writes s + 1,
        console := console s @ [LogError ''Failed to save projects to disk:'']\<rparr>) \<and>
   addArticle N nowIso (WriteFails left) a newData =
     (Inl (Error ''Failed to save article data''),
      a\<lparr>articles := articles a @
          [(spread [''id'' \<mapsto> JNumber (newId N (articles a))] newData)
             (''date'' \<mapsto>
                (if truthy (getProp newData ''date'') then getProp newData ''date''
                 else JString nowIso))],
        disk := left, writes := writes a + 1,
        console := console a @ [LogError ''Failed to save articles to disk:'']\<rparr>) \<and>
   (left = disk s \<and> disk s = Some (JSON_stringify (projects s)) \<longrightarrow>
      disk (snd (addProject N (WriteFails left) s newData)) \<noteq>
        Some (JSON_stringify (projects (snd (addProject N (WriteFails left) s newData))))) \<and>
   (left = disk a \<and> disk a = Some (JSON_stringify (articles a)) \<longrightarrow>
      disk (snd (addArticle N nowIso (WriteFails left) a newData)) \<noteq>
        Some (JSON_stringify (articles (snd (addArticle N nowIso (WriteFails left) a newData)))))"
proof -
  have p: "addProject N (WriteFails left) s newData =
     (Inl (Error ''Failed to save project data''),
      s\<lparr>projects := projects s @ [spread [''id'' \<mapsto> JNumber (newId N (projects s))] newData],
        disk := left, writes := writes s + 1,
        console := console s @ [LogError ''Failed to save projects to disk:'']\<rparr>)"
    by (simp add: addProject_def ProjectService_save_def Let_def)
  have q: "addArticle N nowIso (WriteFails left) a newData =
     (Inl (Error ''Failed to save article data''),
      a\<lparr>articles := articles a @
          [(spread [''id'' \<mapsto> JNumber (newId N (articles a))] newData)
             (''date'' \<mapsto>
                (if truthy (getProp newData ''date'') then getProp newData ''date''
                 else JString nowIso))],
        disk := left, writes := writes a + 1,
        console := console a @ [LogError ''Failed to save articles to disk:'']\<rparr>)"
    by (simp add: addArticle_def ArticleService_save_def Let_def)
  show ?thesis
    unfolding p q using stringify_append_neq by (auto dest: sym)
qed

theorem add_write_failure_witness:
  "addProject decimal (WriteFails (disk store12)) store12 [''title'' \<mapsto> JString ''Z''] =
     (Inl (Error ''Failed to save project data''),
      store12\<lparr>projects :=
                 [project1, project2, [''id'' \<mapsto> JNumber (Num 3), ''title'' \<mapsto> JString ''Z'']],
              writes := 1,
              console := [LogError ''Failed to save projects to disk:'']\<rparr>) \<and>
   disk store12 = Some (JSON_stringify (projects store12)) \<and>
   disk (snd (addProject decimal (WriteFails (disk store12)) store12
               [''title'' \<mapsto> JString ''Z''])) \<noteq>
     Some (JSON_stringify (projects (snd (addProject decimal (WriteFails (disk store12)) store12
               [''title'' \<mapsto> JString ''Z''])))) \<and>
   disk astore1 = Some (JSON_stringify (articles astore1)) \<and>
   disk (snd (addArticle decimal ''2026-01-01T00:00:00.000Z'' (WriteFails (disk astore1)) astore1
               [''title'' \<mapsto> JString ''Z''])) \<noteq>
     Some (JSON_stringify (articles (snd (addArticle decimal ''2026-01-01T00:00:00.000Z''
               (WriteFails (disk astore1)) astore1 [''title'' \<mapsto> JString ''Z'']))))"
proof -
  have n: "newId decimal (projects store12) = Num 3"
    by (simp add: newId_def store12_def project1_def project2_def getProp_def)
  have j: "jsonify project1 = project1" "jsonify project2 = project2"
    "jsonify article1 = article1"
    by (auto simp: jsonify_def project1_def project2_def article1_def)
  have d: "disk store12 = Some (JSON_stringify (projects store12))"
    "disk astore1 = Some (JSON_stringify (articles astore1))"
    by (simp_all add: store12_def astore1_def JSON_stringify_def j)
  have v: "projects store12 = [project1, project2]" "writes store12 = 0" "console store12 = []"
    by (simp_all add: store12_def)
  note th = add_write_failure_not_rolled_back
    [where N = decimal and left = "disk store12" and s = store12
       and newData = "[''title'' \<mapsto> JString ''Z'']"]
  note tha = add_write_failure_not_rolled_back
    [where N = decimal and left = "disk astore1" and a = astore1
       and newData = "[''title'' \<mapsto> JString ''Z'']"
       and nowIso = "''2026-01-01T00:00:00.000Z''"]
  have 1: "addProject decimal (WriteFails (disk store12)) store12 [''title'' \<mapsto> JString ''Z''] =
     (Inl (Error ''Failed to save project data''),
      store12\<lparr>projects :=
                 [project1, project2, [''id'' \<mapsto> JNumber (Num 3), ''title'' \<mapsto> JString ''Z'']],
              writes := 1,
              console := [LogError ''Failed to save projects to disk:'']\<rparr>)"
    using th n v by (simp add: spread_def)
  have 2: "disk (snd (addProject decimal (WriteFails (disk store12)) store12
               [''title'' \<mapsto> JString ''Z''])) \<noteq>
     Some (JSON_stringify (projects (snd (addProject decimal (WriteFails (disk store12)) store12
               [''title'' \<mapsto> JString ''Z'']))))"
    using th d(1) by blast
  have 3: "disk (snd (addArticle decimal ''2026-01-01T00:00:00.000Z'' (WriteFails (disk astore1))
               astore1 [''title'' \<mapsto> JString ''Z''])) \<noteq>
     Some (JSON_stringify (articles (snd (addArticle decimal ''2026-01-01T00:00:00.000Z''
               (WriteFails (disk astore1)) astore1 [''title'' \<mapsto> JString ''Z'']))))"
    using tha d(2) by blast
  show ?thesis
    using 1 2 3 d by simp
qed

text \<open>
  C5 as stated fails in its last clause: memory and file need not differ after the
  failed write. The file holds project 1 and cannot be read at \<open>init\<close>, so the list
  starts empty; adding the same data gives the record the id 1; the write fails and
  leaves the file as it was; the list in memory is then the list in the file.
\<close>

theorem failed_write_without_divergence:
  "ProjectService_init \<lparr>mkdir_ok = True, write_res = WriteOk, read_ok = False\<rparr>
       (ProjectService_constructor (Some (JsonArray [project1]))) =
     \<lparr>initialized = True, disk = Some (JsonArray [project1]),
      console = [LogError ''Failed to load projects.json:''], writes = 0, projects = []\<rparr> \<and>
   addProject decimal (WriteFails (Some (JsonArray [project1])))
       \<lparr>initialized = True, disk = Some (JsonArray [project1]),
        console = [LogError ''Failed to load projects.json:''], writes = 0, projects = []\<rparr>
       [''title'' \<mapsto> JString ''Ponte X''] =
     (Inl (Error ''Failed to save project data''),
      \<lparr>initialized = True, disk = Some (JsonArray [project1]),
       console = [LogError ''Failed to load projects.json:'',
                  LogError ''Failed to save projects to disk:''],
       writes = 1, projects = [project1]\<rparr>) \<and>
   Some (JsonArray [project1]) = Some (JSON_stringify [project1])"
proof -
  have j: "jsonify project1 = project1"
    by (auto simp: jsonify_def project1_def)
  have r: "spread [''id'' \<mapsto> JNumber (Num 1)] [''title'' \<mapsto> JString ''Ponte X''] = project1"
    by (simp add: spread_def project1_def)
  show ?thesis
    by (simp add: ProjectService_init_def ProjectService_constructor_def addProject_def
        ProjectService_save_def Let_def newId_def JSON_stringify_def j r)
qed


lemma init_project_initialized: "initialized (ProjectService_init i s)"
  by (simp add: ProjectService_init_def split: option.splits)

lemma init_article_initialized: "initialized (ArticleService_init i a)"
  by (simp add: ArticleService_init_def ArticleService_init_read_def
      ArticleService_init_catch_def split: option.splits write_outcome.splits)

text \<open>
  C7 (as amended). \<open>init\<close> of either service is idempotent. When the file is missing,
  \<open>ArticleService.init\<close> creates it with the content \<open>[]\<close> (the directory and the file
  being writable) and proceeds with an empty list, while \<open>ProjectService.init\<close> creates no
  file: it logs the read error and proceeds with an empty list. When the file exists
  and does not parse, both log the error and proceed with an empty list.
\<close>

theorem init_behaviour:
  "ProjectService_init i2 (ProjectService_init i1 s) = ProjectService_init i1 s \<and>
   ArticleService_init i2 (ArticleService_init i1 a) = ArticleService_init i1 a \<and>
   (\<not> initialized a \<and> disk a = None \<and> mkdir_ok i1 \<and> write_res i1 = WriteOk \<and> read_ok i1 \<longrightarrow>
      disk (ArticleService_init i1 a) = Some (JsonArray []) \<and>
      articles (ArticleService_init i1 a) = [] \<and>
      writes (ArticleService_init i1 a) = writes a + 1) \<and>
   (\<not> initialized s \<and> disk s = None \<longrightarrow>
      disk (ProjectService_init i1 s) = None \<and>
      projects (ProjectService_init i1 s) = [] \<and>
      writes (ProjectService_init i1 s) = writes s \<and>
      console (ProjectService_init i1 s) =
        console s @ [LogError ''Failed to load projects.json:'']) \<and>
   (\<not> initialized s \<and> disk s = Some (Unparsable t) \<longrightarrow>
      projects (ProjectService_init i1 s) = [] \<and>
      console (ProjectService_init i1 s) =
        console s @ [LogError ''Failed to load projects.json:'']) \<and>
   (\<not> initialized a \<and> disk a = Some (Unparsable t) \<longrightarrow>
      articles (ArticleService_init i1 a) = [] \<and>
      console (ArticleService_init i1 a) =
        console a @ [LogError ''Failed to load articles.json:''])"
proof -
  have 1: "ProjectService_init i2 (ProjectService_init i1 s) = ProjectService_init i1 s"
    using init_project_initialized [of i1 s]
    by (simp add: ProjectService_init_def [of i2])
  have 2: "ArticleService_init i2 (ArticleService_init i1 a) = ArticleService_init i1 a"
    using init_article_initialized [of i1 a]
    by (simp add: ArticleService_init_def [of i2])
  show ?thesis
    unfolding 1 2
    by (simp add: ProjectService_init_def ArticleService_init_def ArticleService_init_read_def
      ArticleService_init_catch_def)
qed

theorem init_behaviour_witness:
  "disk (ArticleService_init \<lparr>mkdir_ok = True, write_res = WriteOk, read_ok = True\<rparr>
           (ArticleService_constructor None)) = Some (JsonArray []) \<and>
   articles (ArticleService_init \<lparr>mkdir_ok = True, write_res = WriteOk, read_ok = True\<rparr>
           (ArticleService_constructor None)) = [] \<and>
   projects (ProjectService_init \<lparr>mkdir_ok = True, write_res = WriteOk, read_ok = True\<rparr>
           (ProjectService_constructor None)) = [] \<and>
   projects (ProjectService_init \<lparr>mkdir_ok = True, write_res = WriteOk, read_ok = True\<rparr>
           (ProjectService_constructor (Some (Unparsable ''[{'')))) = [] \<and>
   console (ArticleService_init \<lparr>mkdir_ok = True, write_res = WriteOk, read_ok = True\<rparr>
           (ArticleService_constructor (Some (Unparsable ''[{'')))) =
     [LogError ''Failed to load articles.json:'']"
  using
    init_behaviour [where ?i1.0 = "\<lparr>mkdir_ok = True, write_res = WriteOk, read_ok = True\<rparr>"
      and a = "ArticleService_constructor None" and s = "ProjectService_constructor None"]
    init_behaviour [where ?i1.0 = "\<lparr>mkdir_ok = True, write_res = WriteOk, read_ok = True\<rparr>"
      and a = "ArticleService_constructor (Some (Unparsable ''[{''))"
      and s = "ProjectService_constructor (Some (Unparsable ''[{''))" and t = "''[{''"]
  by (simp add: ArticleService_constructor_def ProjectService_constructor_def)

text \<open>
  C7 as stated fails for the project store: on a missing file \<open>ProjectService.init\<close>
  issues no write and leaves the file missing, where \<open>ArticleService.init\<close> creates it.
\<close>

theorem project_init_does_not_create_file:
  "disk (ProjectService_init \<lparr>mkdir_ok = True, write_res = WriteOk, read_ok = True\<rparr>
           (ProjectService_constructor None)) = None \<and>
   writes (ProjectService_init \<lparr>mkdir_ok = True, write_res = WriteOk, read_ok = True\<rparr>
           (ProjectService_constructor None)) = 0 \<and>
   disk (ArticleService_init \<lparr>mkdir_ok = True, write_res = WriteOk, read_ok = True\<rparr>
           (ArticleService_constructor None)) = Some (JsonArray [])"
  by (simp add: ProjectService_init_def ProjectService_constructor_def ArticleService_init_def 
     ArticleService_init_read_def ArticleService_constructor_def)

section \<open>Properties of the admin gate\<close>

lemma tokenCheck_not_forbidden: "fst (tokenCheck env req) \<noteq> Rejected forbidden"
  by (auto simp: tokenCheck_def forbidden_def Let_def split: option.splits)

lemma clientIp_frame [simp]: "clientIp (req\<lparr>authorization := h\<rparr>) = clientIp req"
  "bypassIpCheck (env\<lparr>ADMIN_TOKEN := t\<rparr>) (req\<lparr>authorization := h\<rparr>) = bypassIpCheck env req"
  "resolveAllowlist (env\<lparr>ADMIN_TOKEN := t\<rparr>) g = resolveAllowlist env g"
  by (auto simp: clientIp_def bypassIpCheck_def isLocalhost_def isLocalDev_def
      resolveAllowlist_def)

text \<open>
  C2 (as amended). When the resolved client address is not in the configured allowlist,
  the allowlist is not the wildcard \<open>*\<close>, and the request is not a localhost request
  outside production, the gate answers 403 and logs the event \<open>admin_ip_blocked\<close>,
  whatever the \<open>Authorization\<close> header and the configured token are: the token check
  is not performed. Whenever the gate does not answer 403, its outcome is that of the
  token check, and the address is allowlisted, or the wildcard is set, or the request
  is a localhost request outside production.
\<close>

theorem admin_gate_ip_check_first:
  "(\<not> bypassIpCheck env req \<and> allowedIpsStr (resolveAllowlist env g) \<noteq> ''*'' \<and>
    \<not> allowedIps_includes (allowedIps (resolveAllowlist env g)) (clientIp req) \<longrightarrow>
      (\<forall>h t. adminAuth (env\<lparr>ADMIN_TOKEN := t\<rparr>) g (req\<lparr>authorization := h\<rparr>) =
         (Rejected forbidden, resolveAllowlist env g,
          [SecurityEvent ''admin_ip_blocked'' (clientIp req) (path req)]))) \<and>
   (fst (adminAuth env g req) \<noteq> Rejected forbidden \<longrightarrow>
      adminAuth env g req =
        (fst (tokenCheck env req), resolveAllowlist env g, snd (tokenCheck env req)) \<and>
      (bypassIpCheck env req \<or> allowedIpsStr (resolveAllowlist env g) = ''*'' \<or>
       allowedIps_includes (allowedIps (resolveAllowlist env g)) (clientIp req)))"
  by (auto simp: adminAuth_def Let_def forbidden_def)

lemma resolve_prod:
  "resolveAllowlist prod_env gate_initial =
     \<lparr>allowedIpsStr = ''10.0.0.1, 10.0.0.2'', allowedIps = [''10.0.0.1'', ''10.0.0.2'']\<rparr>"
  by (simp add: resolveAllowlist_def prod_env_def gate_initial_def or_else_def trim_def
      isWhiteSpace_def)


theorem admin_gate_witness:
  "\<not> bypassIpCheck prod_env outside_request \<and>
   allowedIpsStr (resolveAllowlist prod_env gate_initial) \<noteq> ''*'' \<and>
   \<not> allowedIps_includes (allowedIps (resolveAllowlist prod_env gate_initial))
       (clientIp outside_request) \<and>
   adminAuth prod_env gate_initial outside_request =
     (Rejected forbidden, resolveAllowlist prod_env gate_initial,
      [SecurityEvent ''admin_ip_blocked'' (Some ''203.0.113.7'') ''/api/admin/projects'']) \<and>
   fst (adminAuth dev_env gate_initial localhost_request) \<noteq> Rejected forbidden \<and>
   bypassIpCheck dev_env localhost_request"
proof -
  have b: "\<not> bypassIpCheck prod_env outside_request"
    by (simp add: bypassIpCheck_def isLocalDev_def prod_env_def)
  have c: "clientIp outside_request = Some ''203.0.113.7''"
    "path outside_request = ''/api/admin/projects''"
    by (simp_all add: clientIp_def outside_request_def or_else_def)
  have i: "\<not> allowedIps_includes (allowedIps (resolveAllowlist prod_env gate_initial))
       (clientIp outside_request)"
    by (simp add: resolve_prod c allowedIps_includes_def)
  have w: "allowedIpsStr (resolveAllowlist prod_env gate_initial) \<noteq> ''*''"
    by (simp add: resolve_prod)
  have e: "prod_env\<lparr>ADMIN_TOKEN := Some ''s3cret''\<rparr> = prod_env"
    "outside_request\<lparr>authorization := Some ''Bearer s3cret''\<rparr> = outside_request"
    by (simp_all add: prod_env_def outside_request_def)
  have d: "bypassIpCheck dev_env localhost_request"
    by (simp add: bypassIpCheck_def isLocalDev_def isLocalhost_def clientIp_def or_else_def
        dev_env_def localhost_request_def)
  have n: "fst (adminAuth dev_env gate_initial localhost_request) \<noteq> Rejected forbidden"
    using d tokenCheck_not_forbidden [of dev_env localhost_request]
    by (simp add: adminAuth_def Let_def)
  from admin_gate_ip_check_first [of prod_env outside_request gate_initial] b w i
  have "adminAuth (prod_env\<lparr>ADMIN_TOKEN := Some ''s3cret''\<rparr>) gate_initial
          (outside_request\<lparr>authorization := Some ''Bearer s3cret''\<rparr>) =
         (Rejected forbidden, resolveAllowlist prod_env gate_initial,
          [SecurityEvent ''admin_ip_blocked'' (clientIp outside_request) (path outside_request)])"
    by blast
  then show ?thesis
    using b w i d n by (simp add: e c)
qed

lemma resolve_dev:
  "resolveAllowlist dev_env gate_initial =
     \<lparr>allowedIpsStr = ''10.0.0.1, 10.0.0.2'', allowedIps = [''10.0.0.1'', ''10.0.0.2'']\<rparr>"
  by (simp add: resolveAllowlist_def dev_env_def gate_initial_def or_else_def trim_def
      isWhiteSpace_def)

text \<open>
  C2 as stated fails: outside production a request from \<open>127.0.0.1\<close> passes the
  address check although the address is not in the allowlist and the wildcard is not
  set; its token is checked and, being valid, the request is let through.
\<close>

theorem localhost_bypasses_allowlist:
  "allowedIpsStr (resolveAllowlist dev_env gate_initial) \<noteq> ''*'' \<and>
   \<not> allowedIps_includes (allowedIps (resolveAllowlist dev_env gate_initial))
       (clientIp localhost_request) \<and>
   adminAuth dev_env gate_initial localhost_request =
     (Next, resolveAllowlist dev_env gate_initial, [])"
proof -
  have c: "clientIp localhost_request = Some ''127.0.0.1''"
    by (simp add: clientIp_def localhost_request_def or_else_def)
  have d: "bypassIpCheck dev_env localhost_request"
    by (simp add: bypassIpCheck_def isLocalDev_def isLocalhost_def c dev_env_def)
  have t: "tokenCheck dev_env localhost_request = (Next, [])"
    by (simp add: tokenCheck_def dev_env_def localhost_request_def or_else_def startsWith_def
        expectedToken_def isLocalDev_def Let_def)
  show ?thesis
    using d t by (simp add: adminAuth_def Let_def resolve_dev c allowedIps_includes_def)
qed

lemma adminAuth_strict_blocks:
  "allowedIpsStr (resolveAllowlist env g) \<noteq> ''*'' \<Longrightarrow>
   \<not> allowedIps_includes (allowedIps (resolveAllowlist env g)) (clientIp req) \<Longrightarrow>
   adminAuth_strict env g req =
     (Rejected forbidden, resolveAllowlist env g,
      [SecurityEvent ''admin_ip_blocked'' (clientIp req) (path req)])"
  by (simp add: adminAuth_strict_def Let_def forbidden_def)

section \<open>Properties of the contact route\<close>










lemma check_allowed:
  assumes "checkEmailRateLimit L m t e mx w = (r, m')" and "allowed r"
  shows "submissionsOf m' (L e) = filter (\<lambda>x. t - x < w) (submissionsOf m (L e)) @ [t]"
    and "length (filter (\<lambda>x. t - x < w) (submissionsOf m (L e))) < mx"
  using assms
  by (auto simp: checkEmailRateLimit_def submissionsOf_def Let_def split: if_splits option.splits)

lemma check_denied:
  assumes "submissionsOf m (L e) = l" and "m (L e) \<noteq> None"
    and "filter (\<lambda>x. t - x < w) l = v # vs" and "mx \<le> length (v # vs)"
  shows "checkEmailRateLimit L m t e mx w =
           (\<lparr>allowed = False, remaining = 0, resetTime = Some (Num (v + w))\<rparr>, m)"
  using assms
  by (auto simp: checkEmailRateLimit_def submissionsOf_def Let_def split: option.splits)

lemma submissionsOf_nonempty: "submissionsOf m k \<noteq> [] \<Longrightarrow> m k \<noteq> None"
  by (auto simp: submissionsOf_def split: option.splits)

lemma ceil_div_pos: "(b::int) < a \<Longrightarrow> 0 < - ((b - a) div 1000)"
  by (simp add: div_neg_pos_less0 pos_imp_zdiv_neg_iff)

text \<open>
  C6 (as amended). With the limits the handler passes (5 per 3600000 ms): after five
  allowed checks for emails with the same lower-cased form, at non-decreasing times,
  a sixth check for that key while the first of them is still within the window is
  denied, with the reset time the first submission's time plus the window; the
  handler answers 429 with \<open>retryAfter\<close> the number of seconds, rounded up, from its own
  clock read to that reset time. This number is greater than 0 whenever the handler
  reads the clock before the reset time.
\<close>

theorem sixth_submission_denied:
  assumes keys: "L e1 = k" "L e2 = k" "L e3 = k" "L e4 = k" "L e5 = k" "L e6 = k"
    and c1: "checkEmailRateLimit L m0 t1 e1 5 3600000 = (r1, m1)" "allowed r1"
    and c2: "checkEmailRateLimit L m1 t2 e2 5 3600000 = (r2, m2)" "allowed r2"
    and c3: "checkEmailRateLimit L m2 t3 e3 5 3600000 = (r3, m3)" "allowed r3"
    and c4: "checkEmailRateLimit L m3 t4 e4 5 3600000 = (r4, m4)" "allowed r4"
    and c5: "checkEmailRateLimit L m4 t5 e5 5 3600000 = (r5, m5)" "allowed r5"
    and mono: "t1 \<le> t2" "t2 \<le> t3" "t3 \<le> t4" "t4 \<le> t5" "t5 \<le> now"
    and inwin: "now - t1 < 3600000"
  shows "checkEmailRateLimit L m5 now e6 5 3600000 =
           (\<lparr>allowed = False, remaining = 0, resetTime = Some (Num (t1 + 3600000))\<rparr>, m5) \<and>
         contact_handler L m5 now now2 e6 sent client =
           (Response 429
              [''success'' \<mapsto> JBool False,
               ''message'' \<mapsto>
                 JString ''Limite de envios atingido para este e-mail. Tente novamente mais tarde.'',
               ''retryAfter'' \<mapsto> JNumber (Num (- ((now2 - (t1 + 3600000)) div 1000)))],
            m5, [EmailRateLimitExceeded k client 0]) \<and>
         (now2 < t1 + 3600000 \<longrightarrow> 0 < - ((now2 - (t1 + 3600000)) div 1000))"
proof -
  let ?f = "\<lambda>t x. t - x < (3600000::int)"
  define F1 where "F1 = filter (?f t1) (submissionsOf m0 k)"
  define F2 where "F2 = filter (?f t2) F1"
  define F3 where "F3 = filter (?f t3) F2"
  define F4 where "F4 = filter (?f t4) F3"
  define F5 where "F5 = filter (?f t5) F4"
  have s1: "submissionsOf m1 k = F1 @ [t1]"
    using check_allowed(1) [OF c1] keys by (simp add: F1_def)
  have s2: "submissionsOf m2 k = F2 @ [t1, t2]"
    using check_allowed(1) [OF c2] keys s1 mono inwin by (simp add: F2_def)
  have s3: "submissionsOf m3 k = F3 @ [t1, t2, t3]"
    using check_allowed(1) [OF c3] keys s2 mono inwin by (simp add: F3_def)
  have s4: "submissionsOf m4 k = F4 @ [t1, t2, t3, t4]"
    using check_allowed(1) [OF c4] keys s3 mono inwin by (simp add: F4_def)
  have s5: "submissionsOf m5 k = F5 @ [t1, t2, t3, t4, t5]"
    using check_allowed(1) [OF c5] keys s4 mono inwin by (simp add: F5_def)
  have "length (filter (?f t5) (submissionsOf m4 k)) < 5"
    using check_allowed(2) [OF c5] keys by simp
  then have "F5 = []"
    using s4 mono inwin by (simp add: F5_def)
  with s5 have l5: "submissionsOf m5 (L e6) = [t1, t2, t3, t4, t5]"
    using keys by simp
  then have ne: "m5 (L e6) \<noteq> None"
    using submissionsOf_nonempty [of m5 "L e6"] by simp
  have v: "filter (\<lambda>x. now - x < 3600000) [t1, t2, t3, t4, t5] = t1 # [t2, t3, t4, t5]"
    using mono inwin by simp
  have chk: "checkEmailRateLimit L m5 now e6 5 3600000 =
           (\<lparr>allowed = False, remaining = 0, resetTime = Some (Num (t1 + 3600000))\<rparr>, m5)"
    using check_denied [where L = L and m = m5 and e = e6 and t = now and w = 3600000
        and mx = 5 and l = "[t1, t2, t3, t4, t5]" and v = t1 and vs = "[t2, t3, t4, t5]"]
      l5 ne v by simp
  have pos: "now2 < t1 + 3600000 \<longrightarrow> 0 < - ((now2 - (t1 + 3600000)) div 1000)"
    using ceil_div_pos [of now2 "t1 + 3600000"] by blast
  show ?thesis
    using chk pos keys by (simp add: contact_handler_def retryAfter_def)
qed


lemma asciiLower_examples:
  "asciiLower ''A@Example.com'' = ''a@example.com''"
  "asciiLower ''a@example.com'' = ''a@example.com''"
  by code_simp+

lemma five_allowed_checks:
  "checkEmailRateLimit asciiLower Map.empty 0 ''A@Example.com'' 5 3600000 =
     (\<lparr>allowed = True, remaining = 4, resetTime = None\<rparr>, [''a@example.com'' \<mapsto> [0]])"
  "checkEmailRateLimit asciiLower [''a@example.com'' \<mapsto> [0]] 1000 ''a@example.com'' 5 3600000 =
     (\<lparr>allowed = True, remaining = 3, resetTime = None\<rparr>, [''a@example.com'' \<mapsto> [0, 1000]])"
  "checkEmailRateLimit asciiLower [''a@example.com'' \<mapsto> [0, 1000]] 2000 ''a@example.com'' 5
       3600000 =
     (\<lparr>allowed = True, remaining = 2, resetTime = None\<rparr>,
      [''a@example.com'' \<mapsto> [0, 1000, 2000]])"
  "checkEmailRateLimit asciiLower [''a@example.com'' \<mapsto> [0, 1000, 2000]] 3000 ''a@example.com''
       5 3600000 =
     (\<lparr>allowed = True, remaining = 1, resetTime = None\<rparr>,
      [''a@example.com'' \<mapsto> [0, 1000, 2000, 3000]])"
  "checkEmailRateLimit asciiLower [''a@example.com'' \<mapsto> [0, 1000, 2000, 3000]] 4000
       ''a@example.com'' 5 3600000 =
     (\<lparr>allowed = True, remaining = 0, resetTime = None\<rparr>,
      [''a@example.com'' \<mapsto> [0, 1000, 2000, 3000, 4000]])"
  by (simp_all add: checkEmailRateLimit_def Let_def asciiLower_examples)

theorem sixth_submission_witness:
  "contact_handler asciiLower [''a@example.com'' \<mapsto> [0, 1000, 2000, 3000, 4000]] 5000 5001
       ''a@example.com'' (Inr ''id-1'') (Some ''198.51.100.4'') =
     (Response 429
        [''success'' \<mapsto> JBool False,
         ''message'' \<mapsto>
           JString ''Limite de envios atingido para este e-mail. Tente novamente mais tarde.'',
         ''retryAfter'' \<mapsto> JNumber (Num 3595)],
      [''a@example.com'' \<mapsto> [0, 1000, 2000, 3000, 4000]],
      [EmailRateLimitExceeded ''a@example.com'' (Some ''198.51.100.4'') 0]) \<and>
   (0::int) < 3595"
proof -
  note th = sixth_submission_denied
    [where L = asciiLower and k = "''a@example.com''" and ?e1.0 = "''A@Example.com''"
       and ?e2.0 = "''a@example.com''" and ?e3.0 = "''a@example.com''"
       and ?e4.0 = "''a@example.com''" and ?e5.0 = "''a@example.com''"
       and ?e6.0 = "''a@example.com''" and ?t1.0 = 0 and ?t2.0 = 1000 and ?t3.0 = 2000
       and ?t4.0 = 3000 and ?t5.0 = 4000 and now = 5000 and ?now2.0 = 5001
       and sent = "Inr ''id-1''" and client = "Some ''198.51.100.4''",
     OF asciiLower_examples(1) asciiLower_examples(2) asciiLower_examples(2)
       asciiLower_examples(2) asciiLower_examples(2) asciiLower_examples(2)
       five_allowed_checks(1) _ five_allowed_checks(2) _ five_allowed_checks(3) _
       five_allowed_checks(4) _ five_allowed_checks(5)]
  from th show ?thesis by simp
qed

text \<open>
  C6 as stated fails at the end of the window: \<open>retryAfter\<close> is computed from a second
  clock read. Five submissions at 0 to 4000 ms are allowed; the sixth is checked at
  3599999 ms, within the window of the first, and denied; the handler reads the clock
  at 3600000 ms and answers 429 with \<open>retryAfter\<close> 0.
\<close>

theorem retry_after_zero:
  "checkEmailRateLimit asciiLower [''a@example.com'' \<mapsto> [0, 1000, 2000, 3000]] 4000
       ''a@example.com'' 5 3600000 =
     (\<lparr>allowed = True, remaining = 0, resetTime = None\<rparr>,
      [''a@example.com'' \<mapsto> [0, 1000, 2000, 3000, 4000]]) \<and>
   contact_handler asciiLower [''a@example.com'' \<mapsto> [0, 1000, 2000, 3000, 4000]]
       3599999 3600000 ''a@example.com'' (Inr ''id-1'') (Some ''198.51.100.4'') =
     (Response 429
        [''success'' \<mapsto> JBool False,
         ''message'' \<mapsto>
           JString ''Limite de envios atingido para este e-mail. Tente novamente mais tarde.'',
         ''retryAfter'' \<mapsto> JNumber (Num 0)],
      [''a@example.com'' \<mapsto> [0, 1000, 2000, 3000, 4000]],
      [EmailRateLimitExceeded ''a@example.com'' (Some ''198.51.100.4'') 0])"
  by (simp add: contact_handler_def checkEmailRateLimit_def retryAfter_def Let_def
      asciiLower_examples)

section \<open>Properties of the message sanitizer\<close>

lemma str_simps: "str [] = []" "str (c # cs) = of_char c # str cs"
  by (simp_all add: str_def)

lemma replaceFrom_numeral:
  "replaceFrom m r (numeral n) (c # cs) = replaceFrom m r (pred_numeral n) cs"
  by (simp add: numeral_eq_Suc)

lemmas san_defs = replaceFrom_numeral replaceAll_def blockMatch_def openTagMatch_def literalCi_def
  eventHandlerMatch_def charMatch_def spaceRun_def jsTrim_def dangerousTags_def ciPrefix_def
  lowerAscii_def isSpace_def isWord_def isQuote_def Let_def str_simps

lemma replaceFrom_set: "set (replaceFrom m r k s) \<subseteq> set s \<union> set r"
  by (induction m r k s rule: replaceFrom.induct) (auto split: option.splits nat.splits)

lemma replaceAll_set: "set (replaceAll m r s) \<subseteq> set s \<union> set r"
  unfolding replaceAll_def by (rule replaceFrom_set)

lemma replaceFrom_charMatch:
  "x \<notin> set r \<Longrightarrow> x \<notin> set (replaceFrom (charMatch x) r k s)"
  by (induction "charMatch x" r k s rule: replaceFrom.induct)
     (auto simp: charMatch_def split: option.splits nat.splits if_splits)

lemma jsTrim_set: "set (jsTrim s) \<subseteq> set s"
proof -
  have "set (dropWhile isSpace (rev (dropWhile isSpace s))) \<subseteq> set (rev (dropWhile isSpace s))"
    by (rule set_dropWhileD [THEN subsetI]) 
  also have "\<dots> \<subseteq> set s"
    using set_dropWhileD [of _ isSpace s] by auto
  finally show ?thesis by (simp add: jsTrim_def)
qed

lemma findCi_None: "p \<noteq> [] \<Longrightarrow> hd p \<notin> lowerAscii ` set s \<Longrightarrow> findCi p s = None"
proof (induction s)
  case Nil
  then show ?case by simp
next
  case (Cons c cs)
  from Cons.prems obtain a p' where p: "p = a # p'" by (cases p) auto
  with Cons.prems have "a \<noteq> lowerAscii c" by auto
  then have "\<not> ciPrefix p (c # cs)" by (auto simp: ciPrefix_def p)
  with Cons show ?case by simp
qed

lemma sanitize_angle_free: "60 \<notin> set (sanitizeMessage x) \<and> 62 \<notin> set (sanitizeMessage x)"
proof (cases "x = []")
  case True
  then show ?thesis by (simp add: sanitizeMessage_def)
next
  case False
  define s6 where "s6 =
    replaceAll dangerousTags []
     (replaceAll (blockMatch (str ''style'')) []
       (replaceAll (firstOf (map blockMatch
            [str ''iframe'', str ''object'', str ''embed'', str ''form''])) []
         (replaceAll (firstOf [literalCi (str ''javascript:''), literalCi (str ''data:'')]) []
           (replaceAll eventHandlerMatch [] (replaceAll (blockMatch (str ''script'')) [] x)))))"
  define a where "a = replaceAll (charMatch 60) (str ''&lt;'') s6"
  define b where "b = replaceAll (charMatch 62) (str ''&gt;'') a"
  define c where "c = replaceAll (charMatch 0) [] b"
  define d where "d = replaceAll spaceRun [32] c"
  have san: "sanitizeMessage x = jsTrim d"
    using False by (simp add: sanitizeMessage_def Let_def d_def c_def b_def a_def s6_def)
  have a60: "60 \<notin> set a"
    unfolding a_def replaceAll_def by (rule replaceFrom_charMatch) (simp add: str_simps)
  have b62: "62 \<notin> set b"
    unfolding b_def replaceAll_def by (rule replaceFrom_charMatch) (simp add: str_simps)
  have b60: "60 \<notin> set b"
    using a60 replaceAll_set [of "charMatch 62" "str ''&gt;''" a]
    by (auto simp: b_def str_simps)
  have "set c \<subseteq> set b"
    using replaceAll_set [of "charMatch 0" "[]" b] by (simp add: c_def)
  moreover have "set d \<subseteq> set c \<union> {32}"
    using replaceAll_set [of spaceRun "[32]" c] by (simp add: d_def)
  moreover have "set (jsTrim d) \<subseteq> set d" by (rule jsTrim_set)
  ultimately have "set (sanitizeMessage x) \<subseteq> set b \<union> {32}"
    unfolding san by blast
  with b60 b62 show ?thesis by auto
qed

text \<open>
  C9. For every input, the sanitized message contains no \<open><script\<close> in any letter case;
  indeed it contains neither \<open><\<close> nor \<open>>\<close>: whatever the removal steps leave of a tag has
  its angle brackets escaped, and the later steps add none.
\<close>

theorem no_script_tag_survives:
  "findCi (str ''<script'') (sanitizeMessage x) = None \<and>
   60 \<notin> set (sanitizeMessage x) \<and> 62 \<notin> set (sanitizeMessage x)"
proof -
  have "60 \<notin> lowerAscii ` set (sanitizeMessage x)"
    using sanitize_angle_free [of x] by (auto simp: lowerAscii_def)
  then have "findCi (str ''<script'') (sanitizeMessage x) = None"
    by (intro findCi_None) (simp_all add: str_simps)
  with sanitize_angle_free [of x] show ?thesis by simp
qed

theorem no_script_tag_survives_witness:
  "sanitizeMessage (str ''Ola <script>alert(1)</script> mundo'') = str ''Ola mundo'' \<and>
   sanitizeMessage (str ''Ola <script>alert(1) mundo'') = str ''Ola alert(1) mundo'' \<and>
   sanitizeMessage (str ''a <scr<script>ipt>b'') = str ''a &lt;script&gt;b'' \<and>
   findCi (str ''<script'') (str ''a &lt;script&gt;b'') = None"
proof -
  have 1: "sanitizeMessage (str ''Ola <script>alert(1)</script> mundo'') = str ''Ola mundo''"
    by (simp add: sanitizeMessage_def san_defs)
  have 2: "sanitizeMessage (str ''Ola <script>alert(1) mundo'') = str ''Ola alert(1) mundo''"
    by (simp add: sanitizeMessage_def san_defs)
  have 3: "sanitizeMessage (str ''a <scr<script>ipt>b'') = str ''a &lt;script&gt;b''"
    by (simp add: sanitizeMessage_def san_defs)
  from no_script_tag_survives [of "str ''a <scr<script>ipt>b''"] 1 2 3
  show ?thesis by simp
qed

text \<open>
  C8 fails on the code: the removal of \<open>javascript:\<close> and \<open>data:\<close> is a single pass, and
  what it removes can join its neighbours to a new occurrence. The message
  \<open>Veja dadata:ta:text/html por favor\<close> is sanitized to \<open>Veja data:text/html por favor\<close>,
  which still holds \<open>data:\<close>, and sanitizing that gives \<open>Veja text/html por favor\<close>.
\<close>

theorem sanitizer_second_pass_changes:
  "sanitizeMessage (str ''Veja dadata:ta:text/html por favor'') =
     str ''Veja data:text/html por favor'' \<and>
   sanitizeMessage (str ''Veja data:text/html por favor'') = str ''Veja text/html por favor'' \<and>
   str ''Veja text/html por favor'' \<noteq> str ''Veja data:text/html por favor''"
  by (simp add: sanitizeMessage_def san_defs)

end
